theory Spec2Isabelle
  imports Main "HOL-Library.Word"
begin

section \<open>JavaScript values used by the server\<close>

text \<open>
  A JavaScript string is a sequence of UTF-16 code units; \<open>length\<close> counts code units, as
  \<open>String.prototype.length\<close> and zod's \<open>min\<close>/\<open>max\<close> do.
\<close>

type_synonym jschar = "16 word"
type_synonym jsstring = "jschar list"

definition ascii :: "string \<Rightarrow> jsstring" where
  "ascii s = map (\<lambda>c. of_nat (of_char c)) s"

definition dquote :: jsstring where
  "dquote = [0x22]"

definition newline :: jsstring where
  "newline = [0x0A]"

definition bullet :: jsstring where
  "bullet = [0x2022]"

definition le_sign :: jsstring where
  "le_sign = [0x2264]"

text \<open>\<open>haystack.includes(needle)\<close>: the needle occurs as a contiguous run of code units.\<close>

fun starts_with :: "'a list \<Rightarrow> 'a list \<Rightarrow> bool" where
  "starts_with s [] = True"
| "starts_with [] (y # ys) = False"
| "starts_with (x # xs) (y # ys) = (x = y \<and> starts_with xs ys)"

fun str_includes :: "'a list \<Rightarrow> 'a list \<Rightarrow> bool" where
  "str_includes [] t = starts_with [] t"
| "str_includes (x # xs) t = (if starts_with (x # xs) t then True else str_includes xs t)"

text \<open>
  \<open>String.prototype.trim\<close> strips the ECMAScript white space and line terminator code
  units from both ends.
\<close>

definition isWhiteSpace :: "jschar \<Rightarrow> bool" where
  "isWhiteSpace c = (c \<in> set [0x09, 0x0A, 0x0B, 0x0C, 0x0D, 0x20, 0xA0, 0x1680,
      0x2000, 0x2001, 0x2002, 0x2003, 0x2004, 0x2005, 0x2006, 0x2007, 0x2008, 0x2009, 0x200A,
      0x2028, 0x2029, 0x202F, 0x205F, 0x3000, 0xFEFF])"

definition trim :: "jsstring \<Rightarrow> jsstring" where
  "trim s = rev (dropWhile isWhiteSpace (rev (dropWhile isWhiteSpace s)))"

text \<open>
  \<open>String.prototype.toLowerCase\<close> on the letters A to Z. No other code unit lower-cases to
  a letter of \<open>bearer\<close>, so the comparison in \<open>checkJwtJose\<close> is the one JavaScript makes.
\<close>

definition lowerChar :: "jschar \<Rightarrow> jschar" where
  "lowerChar c = (if 0x41 \<le> c \<and> c \<le> 0x5A then c + 0x20 else c)"

definition toLowerCase :: "jsstring \<Rightarrow> jsstring" where
  "toLowerCase s = map lowerChar s"

text \<open>\<open>s.split(sep)\<close> for a one-unit separator: never the empty array.\<close>

fun split :: "'a \<Rightarrow> 'a list \<Rightarrow> 'a list list" where
  "split sep [] = [[]]"
| "split sep (c # cs) =
     (if c = sep then [] # split sep cs
      else (case split sep cs of [] \<Rightarrow> [[c]] | p # ps \<Rightarrow> (c # p) # ps))"

text \<open>Template-literal rendering of a non-negative integer: its decimal digits.\<close>

fun numberToString :: "nat \<Rightarrow> jsstring" where
  "numberToString n =
     (if n < 10 then [of_nat (48 + n)]
      else numberToString (n div 10) @ [of_nat (48 + n mod 10)])"

declare numberToString.simps [simp del]

text \<open>
  A thrown \<open>Error\<close>: its \<open>name\<close> and \<open>message\<close>. \<open>String(e)\<close> is
  \<open>Error.prototype.toString\<close>; \<open>e?.message || e\<close> picks the message unless it is empty.
\<close>

datatype jserror = JsError (errName: jsstring) (errMessage: jsstring)

definition errorToString :: "jserror \<Rightarrow> jsstring" where
  "errorToString e =
     (if errName e = [] then errMessage e
      else if errMessage e = [] then errName e
      else errName e @ ascii '': '' @ errMessage e)"

definition messageOrSelf :: "jserror \<Rightarrow> jsstring" where
  "messageOrSelf e = (if errMessage e = [] then errorToString e else errMessage e)"

text \<open>\<open>x || d\<close> on an optional string: \<open>undefined\<close> and the empty string are falsy.\<close>

definition orElse :: "jsstring option \<Rightarrow> jsstring \<Rightarrow> jsstring" where
  "orElse x d = (case x of None \<Rightarrow> d | Some s \<Rightarrow> if s = [] then d else s)"

definition truthy :: "jsstring option \<Rightarrow> bool" where
  "truthy x = (case x of None \<Rightarrow> False | Some s \<Rightarrow> s \<noteq> [])"

section \<open>Process environment and startup constants\<close>

record environ =
  env_GEMINI_MODEL :: "jsstring option"
  env_GEMINI_API_KEY :: "jsstring option"
  env_OPENAI_API_KEY :: "jsstring option"
  env_AUTH0_DOMAIN :: "jsstring option"
  env_AUTH0_AUDIENCE :: "jsstring option"

definition GEMINI_MODEL :: "environ \<Rightarrow> jsstring" where
  "GEMINI_MODEL pe = orElse (env_GEMINI_MODEL pe) (ascii ''gemini-2.0-flash'')"

definition AUTH0_DOMAIN :: "environ \<Rightarrow> jsstring" where
  "AUTH0_DOMAIN pe = orElse (env_AUTH0_DOMAIN pe) []"

definition AUTH0_AUDIENCE :: "environ \<Rightarrow> jsstring" where
  "AUTH0_AUDIENCE pe = orElse (env_AUTH0_AUDIENCE pe) []"

definition ISSUER :: "environ \<Rightarrow> jsstring" where
  "ISSUER pe =
     (if AUTH0_DOMAIN pe \<noteq> [] then ascii ''https://'' @ AUTH0_DOMAIN pe @ ascii ''/'' else [])"

text \<open>
  The remote key set is identified by its URL; \<open>null\<close> is \<open>None\<close>. (A domain for which
  \<open>new URL\<close> throws stops the process at startup, before any request is served.)
\<close>

definition JWKS :: "environ \<Rightarrow> jsstring option" where
  "JWKS pe =
     (if AUTH0_DOMAIN pe \<noteq> [] then Some (ISSUER pe @ ascii ''.well-known/jwks.json'') else None)"

section \<open>Requests, responses and the outside world\<close>

text \<open>
  The values \<open>req.body\<close> can hold: what \<open>JSON.parse\<close> yields, and \<open>undefined\<close>.
\<close>

datatype json =
    JUndefined
  | JNull
  | JBool bool
  | JNumber int
  | JString jsstring
  | JArray "json list"
  | JObject "(jsstring \<times> json) list"

text \<open>
  A request as it arrives: the \<open>Authorization\<close> header if present; whether it has a
  body (a \<open>Content-Length\<close> or \<open>Transfer-Encoding\<close> header); whether its
  \<open>Content-Type\<close> is \<open>application/json\<close>; whether its charset and content encoding are
  ones the body parser supports; the size of the payload in bytes; and what \<open>JSON.parse\<close>
  makes of the payload, \<open>None\<close> when it is not JSON text.
\<close>

record http_request =
  headerAuthorization :: "jsstring option"
  hasBody :: bool
  contentTypeJson :: bool
  encodingSupported :: bool
  bodyBytes :: nat
  payload :: "json option"

text \<open>
  The request as the route sees it, after the body parser: the \<open>Authorization\<close> header
  and \<open>req.body\<close>.
\<close>

record request =
  authorization :: "jsstring option"
  body :: json

text \<open>A JSON response: the status and the fields of the object passed to \<open>res.json\<close>.\<close>

record response =
  status :: nat
  resBody :: "(string \<times> jsstring) list"

type_synonym payload = "(jsstring \<times> json) list"

text \<open>What zod reports for a rejected body: one issue per failed check, with its path.\<close>

datatype zod_issue =
    InvalidType "jsstring list" string string
  | TooSmall "jsstring list" nat
  | TooBig "jsstring list" nat

text \<open>
  The libraries and remote services the server calls. Each call either throws or returns:
  \<^item> \<open>jwtVerify token jwks issuer audience\<close> gives the token's claims;
  \<^item> \<open>generateContent apiKey model prompt\<close> gives \<open>result.response.text()\<close>;
  \<^item> \<open>chatCompletion apiKey model system user\<close> gives
    \<open>completion.choices?.[0]?.message?.content\<close>, \<open>None\<close> when it is absent;
  \<^item> \<open>zodMessage issues\<close> is the \<open>message\<close> of the \<open>ZodError\<close> thrown for the issues;
  \<^item> \<open>skippedBody\<close> is the \<open>req.body\<close> the body parser leaves when it does not parse a
    request: \<open>{}\<close> in body-parser 1, \<open>undefined\<close> in body-parser 2.
\<close>

record world =
  jwtVerify :: "jsstring \<Rightarrow> jsstring \<Rightarrow> jsstring \<Rightarrow> jsstring \<Rightarrow> jserror + payload"
  generateContent :: "jsstring \<Rightarrow> jsstring \<Rightarrow> jsstring \<Rightarrow> jserror + jsstring"
  chatCompletion :: "jsstring \<Rightarrow> jsstring \<Rightarrow> jsstring \<Rightarrow> jsstring \<Rightarrow> jserror + jsstring option"
  zodMessage :: "zod_issue list \<Rightarrow> jsstring"
  skippedBody :: json

text \<open>The calls made while a request is handled, in the order they are made.\<close>

datatype call =
    CallJwtVerify jsstring
  | CallGemini jsstring jsstring
  | CallOpenAI jsstring jsstring

fun isProviderCall :: "call \<Rightarrow> bool" where
  "isProviderCall (CallJwtVerify t) = False"
| "isProviderCall (CallGemini m p) = True"
| "isProviderCall (CallOpenAI m t) = True"

section \<open>Validation\<close>

text \<open>\<open>typeof\<close> as zod names the received value.\<close>

fun receivedType :: "json \<Rightarrow> string" where
  "receivedType JUndefined = ''undefined''"
| "receivedType JNull = ''null''"
| "receivedType (JBool b) = ''boolean''"
| "receivedType (JNumber n) = ''number''"
| "receivedType (JString s) = ''string''"
| "receivedType (JArray xs) = ''array''"
| "receivedType (JObject kvs) = ''object''"

text \<open>\<open>Body = z.object({ text: z.string().min(1).max(20000) })\<close>; \<open>Body.parse\<close> throws the issues.\<close>

fun parseText :: "json option \<Rightarrow> zod_issue list + jsstring" where
  "parseText None = Inl [InvalidType [ascii ''text''] ''string'' ''undefined'']"
| "parseText (Some (JString s)) =
     (if length s < 1 then Inl [TooSmall [ascii ''text''] 1]
      else if length s > 20000 then Inl [TooBig [ascii ''text''] 20000]
      else Inr s)"
| "parseText (Some v) = Inl [InvalidType [ascii ''text''] ''string'' (receivedType v)]"

fun Body_parse :: "json \<Rightarrow> zod_issue list + jsstring" where
  "Body_parse (JObject kvs) = parseText (map_of kvs (ascii ''text''))"
| "Body_parse v = Inl [InvalidType [] ''object'' (receivedType v)]"

section \<open>Token verification\<close>

definition unauthorized :: "jsstring \<Rightarrow> response" where
  "unauthorized detail =
     \<lparr>status = 401, resBody = [(''error'', ascii ''Unauthorized''), (''detail'', detail)]\<rparr>"

definition authNotConfigured :: jsstring where
  "authNotConfigured = ascii ''Auth not configured on server (missing AUTH0_* envs).''"

definition missingBearer :: jsstring where
  "missingBearer = ascii ''Missing Bearer token''"

text \<open>
  \<open>const [scheme, token] = auth.split(" ")\<close> and the test
  \<open>scheme?.toLowerCase() !== "bearer" || !token\<close>: the token when the test lets it through.
\<close>

definition bearerToken :: "jsstring option \<Rightarrow> jsstring option" where
  "bearerToken header =
     (let auth = orElse header [];
          parts = split 0x20 auth;
          scheme = (case parts of [] \<Rightarrow> None | s # rest \<Rightarrow> Some s);
          token = (case parts of s # t # rest \<Rightarrow> Some t | _ \<Rightarrow> None)
      in if map_option toLowerCase scheme = Some (ascii ''bearer'') then
           (case token of None \<Rightarrow> None | Some t \<Rightarrow> if t = [] then None else Some t)
         else None)"

text \<open>
  The middleware either answers itself (\<open>Inl\<close>) or calls \<open>next()\<close> with the verified
  claims attached (\<open>Inr\<close>).
\<close>

definition checkJwtJose :: "environ \<Rightarrow> world \<Rightarrow> request \<Rightarrow> (response + payload) \<times> call list" where
  "checkJwtJose pe w req =
     (case JWKS pe of
        None \<Rightarrow> (Inl (unauthorized authNotConfigured), [])
      | Some jwks \<Rightarrow>
          if AUTH0_AUDIENCE pe = [] then (Inl (unauthorized authNotConfigured), [])
          else if ISSUER pe = [] then (Inl (unauthorized authNotConfigured), [])
          else
            (case bearerToken (authorization req) of
               None \<Rightarrow> (Inl (unauthorized missingBearer), [])
             | Some token \<Rightarrow>
                 (case jwtVerify w token jwks (ISSUER pe) (AUTH0_AUDIENCE pe) of
                    Inl e \<Rightarrow> (Inl (unauthorized (messageOrSelf e)), [CallJwtVerify token])
                  | Inr p \<Rightarrow> (Inr p, [CallJwtVerify token]))))"

section \<open>The summarize handler\<close>

definition promptPrefix :: jsstring where
  "promptPrefix =
     ascii ''Summarize the following notes into exactly 5 concise, factual bullet points.''
     @ newline @ newline"

definition systemPrompt :: jsstring where
  "systemPrompt =
     ascii ''Summarize the user's notes into exactly 5 concise, factual bullet points.''"

definition gpt4oMini :: jsstring where
  "gpt4oMini = ascii ''gpt-4o-mini''"

definition quotaMarker :: jsstring where
  "quotaMarker = ascii ''exceeded your current quota''"

definition atText :: jsstring where
  "atText = ascii ''at '' @ dquote @ ascii ''text'' @ dquote"

definition emptyOpenAI :: jserror where
  "emptyOpenAI = JsError (ascii ''Error'') (ascii ''OpenAI returned an empty response.'')"

text \<open>
  Each provider block gives \<open>Some\<close> response when it returns from the handler and
  \<open>None\<close> when control falls through to the next block.
\<close>

definition tryGemini :: "environ \<Rightarrow> world \<Rightarrow> jsstring \<Rightarrow> response option \<times> call list" where
  "tryGemini pe w text =
     (case env_GEMINI_API_KEY pe of
        None \<Rightarrow> (None, [])
      | Some key \<Rightarrow>
          if key = [] then (None, [])
          else
            (case generateContent w key (GEMINI_MODEL pe) (promptPrefix @ text) of
               Inl gerr \<Rightarrow> (None, [CallGemini (GEMINI_MODEL pe) (promptPrefix @ text)])
             | Inr t \<Rightarrow>
                 let summary = trim t
                 in (if summary = [] then None
                     else Some \<lparr>status = 200,
                            resBody = [(''summary'', summary), (''provider'', ascii ''gemini''),
                                       (''model'', GEMINI_MODEL pe)]\<rparr>,
                     [CallGemini (GEMINI_MODEL pe) (promptPrefix @ text)])))"

definition quotaResponse :: response where
  "quotaResponse =
     \<lparr>status = 429,
      resBody = [(''error'', ascii ''OpenAI quota exceeded. Check plan/billing or use Gemini.''),
                 (''provider'', ascii ''openai'')]\<rparr>"

definition catchOpenAI :: "jserror \<Rightarrow> response option" where
  "catchOpenAI oerr =
     (if str_includes (errMessage oerr) quotaMarker then Some quotaResponse else None)"

definition tryOpenAI :: "environ \<Rightarrow> world \<Rightarrow> jsstring \<Rightarrow> response option \<times> call list" where
  "tryOpenAI pe w text =
     (case env_OPENAI_API_KEY pe of
        None \<Rightarrow> (None, [])
      | Some key \<Rightarrow>
          if key = [] then (None, [])
          else
            (case chatCompletion w key gpt4oMini systemPrompt text of
               Inl oerr \<Rightarrow> (catchOpenAI oerr, [CallOpenAI gpt4oMini text])
             | Inr content \<Rightarrow>
                 let summary = (case content of None \<Rightarrow> [] | Some c \<Rightarrow> trim c)
                 in (if summary = [] then catchOpenAI emptyOpenAI
                     else Some \<lparr>status = 200,
                            resBody = [(''summary'', summary), (''provider'', ascii ''openai''),
                                       (''model'', gpt4oMini)]\<rparr>,
                     [CallOpenAI gpt4oMini text])))"

definition demoSummary :: "environ \<Rightarrow> jsstring \<Rightarrow> jsstring" where
  "demoSummary pe text =
     bullet @ ascii '' (Demo) No AI provider responded'' @ newline @
     bullet @ ascii '' Gemini model tried: '' @ GEMINI_MODEL pe @ newline @
     bullet @ ascii '' Tip: set GEMINI_API_KEY (AI Studio) with gemini-2.0-flash'' @ newline @
     bullet @ ascii '' Or add OPENAI_API_KEY (with quota)'' @ newline @
     bullet @ ascii '' Input length: '' @ numberToString (length text) @ ascii '' chars''"

definition demoResponse :: "environ \<Rightarrow> jsstring \<Rightarrow> response" where
  "demoResponse pe text =
     \<lparr>status = 200,
      resBody = [(''summary'', demoSummary pe text), (''provider'', ascii ''demo'')]\<rparr>"

definition geminiUnavailable :: "environ \<Rightarrow> response" where
  "geminiUnavailable pe =
     \<lparr>status = 400,
      resBody = [(''error'',
                  ascii ''Gemini model unavailable. Use 'gemini-2.0-flash' or 'gemini-2.5-flash-lite' and ensure Generative Language API is enabled.''),
                 (''provider'', ascii ''gemini''), (''model'', GEMINI_MODEL pe)]\<rparr>"

definition invalidBody :: response where
  "invalidBody =
     \<lparr>status = 400,
      resBody = [(''error'', ascii ''Invalid body. Provide non-empty 'text' '' @ le_sign @
                    ascii '' 20,000 chars.'')]\<rparr>"

definition unexpectedError :: response where
  "unexpectedError =
     \<lparr>status = 500,
      resBody = [(''error'', ascii ''Unexpected server error. Check server logs.'')]\<rparr>"

text \<open>The handler's outer \<open>catch\<close>, on the thrown error.\<close>

definition catchHandler :: "environ \<Rightarrow> jserror \<Rightarrow> response" where
  "catchHandler pe err =
     (let msg = messageOrSelf err
      in if str_includes msg (ascii ''ListModels'') \<or> str_includes msg (ascii ''404 Not Found'')
            \<or> str_includes msg (ascii ''models/gemini-pro'')
         then geminiUnavailable pe
         else if str_includes msg atText then invalidBody
         else unexpectedError)"

definition summarizeHandler :: "environ \<Rightarrow> world \<Rightarrow> request \<Rightarrow> response \<times> call list" where
  "summarizeHandler pe w req =
     (case Body_parse (body req) of
        Inl issues \<Rightarrow> (catchHandler pe (JsError (ascii ''ZodError'') (zodMessage w issues)), [])
      | Inr text \<Rightarrow>
          (case tryGemini pe w text of
             (Some r, calls) \<Rightarrow> (r, calls)
           | (None, calls) \<Rightarrow>
               (case tryOpenAI pe w text of
                  (Some r, calls') \<Rightarrow> (r, calls @ calls')
                | (None, calls') \<Rightarrow> (demoResponse pe text, calls @ calls'))))"

text \<open>\<open>app.post("/api/summarize", checkJwtJose, handler)\<close>: the handler runs on \<open>next()\<close>.\<close>

definition summarizeRoute :: "environ \<Rightarrow> world \<Rightarrow> request \<Rightarrow> response \<times> call list" where
  "summarizeRoute pe w req =
     (case checkJwtJose pe w req of
        (Inl r, calls) \<Rightarrow> (r, calls)
      | (Inr claims, calls) \<Rightarrow>
          (case summarizeHandler pe w req of (r, calls') \<Rightarrow> (r, calls @ calls')))"

section \<open>The application\<close>

text \<open>
  \<open>app.use(express.json({ limit: "1mb" }))\<close> is registered before the route, so it runs
  first. The parser, in the order of its tests:
  \<^item> passes a request without a body, or whose content type is not JSON, on unparsed;
  \<^item> raises \<open>415\<close> for a charset or content encoding it does not support;
  \<^item> raises \<open>413\<close> for a payload larger than the limit;
  \<^item> gives \<open>{}\<close> for an empty payload;
  \<^item> raises \<open>400\<close> for a payload that is not JSON text, or (strict mode, the default)
    whose top-level value is neither an object nor an array;
  \<^item> otherwise sets \<open>req.body\<close> to the parsed value.
  With no error middleware registered, Express's default error handler answers a raised
  error with its status, and no later middleware or handler runs.
\<close>

definition jsonLimit :: nat where
  "jsonLimit = 1024 * 1024"

datatype reply = ParserRejected nat | Answered response

definition express_json :: "nat \<Rightarrow> json \<Rightarrow> http_request \<Rightarrow> nat + request" where
  "express_json limit skipped hr =
     (if hasBody hr then
        (if contentTypeJson hr then
           (if encodingSupported hr then
              (if bodyBytes hr > limit then Inl 413
               else if bodyBytes hr = 0 then
                 Inr \<lparr>authorization = headerAuthorization hr, body = JObject []\<rparr>
               else
                 (case payload hr of
                    None \<Rightarrow> Inl 400
                  | Some (JObject kvs) \<Rightarrow>
                      Inr \<lparr>authorization = headerAuthorization hr, body = JObject kvs\<rparr>
                  | Some (JArray xs) \<Rightarrow>
                      Inr \<lparr>authorization = headerAuthorization hr, body = JArray xs\<rparr>
                  | Some v \<Rightarrow> Inl 400))
            else Inl 415)
         else Inr \<lparr>authorization = headerAuthorization hr, body = skipped\<rparr>)
      else Inr \<lparr>authorization = headerAuthorization hr, body = skipped\<rparr>)"

definition app_post_summarize :: "environ \<Rightarrow> world \<Rightarrow> http_request \<Rightarrow> reply \<times> call list" where
  "app_post_summarize pe w hr =
     (case express_json jsonLimit (skippedBody w) hr of
        Inl code \<Rightarrow> (ParserRejected code, [])
      | Inr req \<Rightarrow> (case summarizeRoute pe w req of (r, calls) \<Rightarrow> (Answered r, calls)))"

section \<open>Adapter outcomes\<close>

text \<open>
  The Gemini adapter fails for a request when it is not configured, when its call throws
  (whatever the cause), or when the text it returns is empty after trimming.
\<close>

definition geminiFails :: "environ \<Rightarrow> world \<Rightarrow> jsstring \<Rightarrow> bool" where
  "geminiFails pe w text =
     (case env_GEMINI_API_KEY pe of
        None \<Rightarrow> True
      | Some key \<Rightarrow>
          if key = [] then True
          else (case generateContent w key (GEMINI_MODEL pe) (promptPrefix @ text) of
                  Inl gerr \<Rightarrow> True
                | Inr t \<Rightarrow> trim t = []))"

text \<open>
  The OpenAI adapter fails without a quota condition when it is not configured, when its
  call throws an error whose message lacks the quota marker, or when the content it returns
  is absent or empty after trimming.
\<close>

definition openaiFailsWithoutQuota :: "environ \<Rightarrow> world \<Rightarrow> jsstring \<Rightarrow> bool" where
  "openaiFailsWithoutQuota pe w text =
     (case env_OPENAI_API_KEY pe of
        None \<Rightarrow> True
      | Some key \<Rightarrow>
          if key = [] then True
          else (case chatCompletion w key gpt4oMini systemPrompt text of
                  Inl oerr \<Rightarrow> (if str_includes (errMessage oerr) quotaMarker then False else True)
                | Inr None \<Rightarrow> True
                | Inr (Some c) \<Rightarrow> trim c = []))"

text \<open>The provider calls of a trace, in order.\<close>

definition providerCalls :: "call list \<Rightarrow> call list" where
  "providerCalls calls = filter isProviderCall calls"

text \<open>The field of a response body, if the body has it.\<close>

definition field :: "response \<Rightarrow> string \<Rightarrow> jsstring option" where
  "field r k = map_of (resBody r) k"

text \<open>The decimal digits \<open>0\<close> to \<open>9\<close>, and the number a string of them denotes.\<close>

definition isDigit :: "jschar \<Rightarrow> bool" where
  "isDigit c = (0x30 \<le> c \<and> c \<le> 0x39)"

definition digitsValue :: "jsstring \<Rightarrow> nat" where
  "digitsValue s = foldl (\<lambda>acc c. 10 * acc + (unat c - 48)) 0 s"

section \<open>Example configurations, worlds and requests\<close>

definition peBoth :: environ where
  "peBoth =
     \<lparr>env_GEMINI_MODEL = None,
      env_GEMINI_API_KEY = Some (ascii ''gk''),
      env_OPENAI_API_KEY = Some (ascii ''ok''),
      env_AUTH0_DOMAIN = Some (ascii ''dev.auth0.com''),
      env_AUTH0_AUDIENCE = Some (ascii ''api'')\<rparr>"

definition peLite :: environ where
  "peLite = peBoth\<lparr>env_GEMINI_MODEL := Some (ascii ''gemini-2.5-flash-lite'')\<rparr>"

definition peGeminiOnly :: environ where
  "peGeminiOnly = peBoth\<lparr>env_OPENAI_API_KEY := None\<rparr>"

definition peNoProvider :: environ where
  "peNoProvider = peBoth\<lparr>env_GEMINI_API_KEY := None, env_OPENAI_API_KEY := None\<rparr>"

definition peNoAuth :: environ where
  "peNoAuth = peBoth\<lparr>env_AUTH0_DOMAIN := None\<rparr>"

text \<open>
  The message zod gives the \<open>ZodError\<close> for an empty \<open>text\<close>: the issue list as
  \<open>JSON.stringify(issues, null, 2)\<close> prints it.
\<close>

definition quoted :: "string \<Rightarrow> jsstring" where
  "quoted s = dquote @ ascii s @ dquote"

definition tooSmallMessage :: jsstring where
  "tooSmallMessage =
     ascii ''['' @ newline @
     ascii ''  {'' @ newline @
     ascii ''    '' @ quoted ''code'' @ ascii '': '' @ quoted ''too_small'' @ ascii '','' @ newline @
     ascii ''    '' @ quoted ''minimum'' @ ascii '': 1,'' @ newline @
     ascii ''    '' @ quoted ''type'' @ ascii '': '' @ quoted ''string'' @ ascii '','' @ newline @
     ascii ''    '' @ quoted ''inclusive'' @ ascii '': true,'' @ newline @
     ascii ''    '' @ quoted ''exact'' @ ascii '': false,'' @ newline @
     ascii ''    '' @ quoted ''message'' @ ascii '': '' @
       quoted ''String must contain at least 1 character(s)'' @ ascii '','' @ newline @
     ascii ''    '' @ quoted ''path'' @ ascii '': ['' @ newline @
     ascii ''      '' @ quoted ''text'' @ newline @
     ascii ''    ]'' @ newline @
     ascii ''  }'' @ newline @
     ascii '']''"

text \<open>
  A world where every token verifies, Gemini and OpenAI answer as given, and zod reports
  with \<open>tooSmallMessage\<close>.
\<close>

definition exampleWorld :: "jserror + jsstring \<Rightarrow> jserror + jsstring option \<Rightarrow> world" where
  "exampleWorld gemini openai =
     \<lparr>jwtVerify = (\<lambda>token jwks issuer audience. Inr []),
      generateContent = (\<lambda>key model prompt. gemini),
      chatCompletion = (\<lambda>key model system user. openai),
      zodMessage = (\<lambda>issues. tooSmallMessage),
      skippedBody = JObject []\<rparr>"

definition quotaError :: jserror where
  "quotaError = JsError (ascii ''Error'') (ascii ''429 You exceeded your current quota'')"

definition networkError :: jserror where
  "networkError = JsError (ascii ''Error'') (ascii ''fetch failed'')"

definition modelNotFound :: jserror where
  "modelNotFound =
     JsError (ascii ''Error'')
       (ascii ''[404 Not Found] models/gemini-pro is not found. Call ListModels to see the list.'')"

definition textBody :: "jsstring \<Rightarrow> json" where
  "textBody t = JObject [(ascii ''text'', JString t)]"

definition requestWith :: "jsstring option \<Rightarrow> json \<Rightarrow> request" where
  "requestWith header b = \<lparr>authorization = header, body = b\<rparr>"

definition bearerAbc :: "jsstring option" where
  "bearerAbc = Some (ascii ''Bearer abc'')"

text \<open>A request with a JSON content type, of the given size and payload.\<close>

definition jsonRequest :: "jsstring option \<Rightarrow> nat \<Rightarrow> json option \<Rightarrow> http_request" where
  "jsonRequest header n p =
     \<lparr>headerAuthorization = header, hasBody = True, contentTypeJson = True,
      encodingSupported = True, bodyBytes = n, payload = p\<rparr>"

text \<open>
  A world that looks at what it is called with: \<open>jwtVerify\<close> accepts the token \<open>good\<close>
  for the key set, issuer and audience of \<open>peBoth\<close> and refuses anything else; Gemini
  answers the key \<open>gk\<close>, the model \<open>gemini-2.5-flash-lite\<close> and the prompt for the text
  \<open>notes\<close>; OpenAI answers the key \<open>ok\<close>, the model \<open>gpt-4o-mini\<close>, the system prompt
  and the text \<open>notes\<close>; every other call throws.
\<close>

definition invalidToken :: jserror where
  "invalidToken = JsError (ascii ''JWSInvalid'') (ascii ''Invalid Compact JWS'')"

definition strictWorld :: world where
  "strictWorld =
     \<lparr>jwtVerify = (\<lambda>token jwks issuer audience.
        if token = ascii ''good''
           \<and> jwks = ascii ''https://dev.auth0.com/.well-known/jwks.json''
           \<and> issuer = ascii ''https://dev.auth0.com/''
           \<and> audience = ascii ''api''
        then Inr [] else Inl invalidToken),
      generateContent = (\<lambda>key model prompt.
        if key = ascii ''gk'' \<and> model = ascii ''gemini-2.5-flash-lite''
           \<and> prompt =
               ascii ''Summarize the following notes into exactly 5 concise, factual bullet points.''
               @ [0x0A, 0x0A] @ ascii ''notes''
        then Inr (ascii '' five bullets '') else Inl networkError),
      chatCompletion = (\<lambda>key model system user.
        if key = ascii ''ok'' \<and> model = ascii ''gpt-4o-mini''
           \<and> system =
               ascii ''Summarize the user's notes into exactly 5 concise, factual bullet points.''
           \<and> user = ascii ''notes''
        then Inr (Some (ascii '' five bullets '')) else Inl networkError),
      zodMessage = (\<lambda>issues. tooSmallMessage),
      skippedBody = JUndefined\<rparr>"

section \<open>Auxiliary facts\<close>

lemma starts_with_iff: "starts_with s t \<longleftrightarrow> (\<exists>q. s = t @ q)"
  by (induction s t rule: starts_with.induct) auto

lemma str_includes_iff: "str_includes s t \<longleftrightarrow> (\<exists>p q. s = p @ t @ q)"
proof (induction s)
  case Nil
  show ?case by (cases t) auto
next
  case (Cons x xs)
  show ?case
  proof
    assume "str_includes (x # xs) t"
    then consider "starts_with (x # xs) t" | "str_includes xs t"
      by (auto split: if_splits)
    then show "\<exists>p q. x # xs = p @ t @ q"
    proof cases
      case 1
      then obtain q where "x # xs = t @ q" using starts_with_iff by blast
      then have "x # xs = [] @ t @ q" by simp
      then show ?thesis by blast
    next
      case 2
      then obtain p q where "xs = p @ t @ q" using Cons.IH by blast
      then have "x # xs = (x # p) @ t @ q" by simp
      then show ?thesis by blast
    qed
  next
    assume "\<exists>p q. x # xs = p @ t @ q"
    then obtain p q where pq: "x # xs = p @ t @ q" by blast
    show "str_includes (x # xs) t"
    proof (cases p)
      case Nil
      with pq have "starts_with (x # xs) t" using starts_with_iff by fastforce
      then show ?thesis by simp
    next
      case (Cons y p')
      with pq have "xs = p' @ t @ q" by simp
      then have "str_includes xs t" using Cons.IH by blast
      then show ?thesis by simp
    qed
  qed
qed

lemma str_includes_mid: "str_includes (p @ t @ q) t"
  using str_includes_iff by blast

lemma split_not_Nil: "split sep s \<noteq> []"
  by (induction s) (auto split: list.splits)

lemma checkJwtJose_Inl:
  "checkJwtJose pe w req = (Inl r, calls) \<Longrightarrow> (\<exists>d. r = unauthorized d) \<and> filter isProviderCall calls = []"
  by (auto simp: checkJwtJose_def Let_def split: option.splits if_splits list.splits sum.splits)

lemma checkJwtJose_calls:
  "filter isProviderCall (snd (checkJwtJose pe w req)) = []"
  by (auto simp: checkJwtJose_def Let_def split: option.splits if_splits list.splits sum.splits)

lemma tryGemini_None_iff: "fst (tryGemini pe w text) = None \<longleftrightarrow> geminiFails pe w text"
  by (simp add: tryGemini_def geminiFails_def Let_def split: option.split sum.split)


lemma tryGemini_Some:
  "tryGemini pe w text = (Some r, calls) \<Longrightarrow>
     \<exists>s. s \<noteq> [] \<and> r = \<lparr>status = 200, resBody = [(''summary'', s), (''provider'', ascii ''gemini''),
                                       (''model'', GEMINI_MODEL pe)]\<rparr>"
  by (auto simp: tryGemini_def Let_def split: option.splits sum.splits if_splits)

lemma tryOpenAI_None_iff:
  "fst (tryOpenAI pe w text) = None \<longleftrightarrow> openaiFailsWithoutQuota pe w text"
proof -
  have e: "\<not> str_includes (errMessage emptyOpenAI) quotaMarker"
    by (simp add: emptyOpenAI_def quotaMarker_def ascii_def)
  show ?thesis
    using e
    by (simp add: tryOpenAI_def openaiFailsWithoutQuota_def catchOpenAI_def Let_def
        split: option.split sum.split)
qed


lemma tryOpenAI_Some:
  "tryOpenAI pe w text = (Some r, calls) \<Longrightarrow>
     r = quotaResponse \<or>
     (\<exists>s. s \<noteq> [] \<and> r = \<lparr>status = 200, resBody = [(''summary'', s), (''provider'', ascii ''openai''),
                                       (''model'', gpt4oMini)]\<rparr>)"
  by (auto simp: tryOpenAI_def catchOpenAI_def Let_def split: option.splits sum.splits if_splits)

lemma catchHandler_cases:
  "catchHandler pe e = geminiUnavailable pe \<or> catchHandler pe e = invalidBody \<or>
   catchHandler pe e = unexpectedError"
  by (simp add: catchHandler_def Let_def)

lemma bearerToken_abc: "bearerToken bearerAbc = Some (ascii ''abc'')"
  by (simp add: bearerToken_def bearerAbc_def orElse_def ascii_def toLowerCase_def lowerChar_def Let_def)

lemma unat_digit: "d < 10 \<Longrightarrow> unat (48 + word_of_nat d :: 16 word) = 48 + d"
proof -
  assume d: "d < 10"
  have "(48 + word_of_nat d :: 16 word) = word_of_nat (48 + d)" by simp
  then have "unat (48 + word_of_nat d :: 16 word) = (48 + d) mod 2 ^ 16"
    by (simp only: unat_of_nat len_bit0 len_num1) simp
  with d show ?thesis by simp
qed

lemma digitsValue_snoc: "digitsValue (s @ [c]) = 10 * digitsValue s + (unat c - 48)"
  by (simp add: digitsValue_def)

lemma digitsValue_numberToString: "digitsValue (numberToString n) = n"
proof (induction n rule: numberToString.induct)
  case (1 n)
  show ?case
  proof (cases "n < 10")
    case True
    then show ?thesis
      by (simp add: numberToString.simps [of n] digitsValue_def unat_digit)
  next
    case False
    then have "digitsValue (numberToString (n div 10)) = n div 10"
      using "1.IH" by simp
    then show ?thesis
      using False
      by (simp add: numberToString.simps [of n] digitsValue_snoc unat_digit)
  qed
qed

lemma route_next:
  "checkJwtJose pe w req = (Inr claims, calls0) \<Longrightarrow>
   summarizeRoute pe w req =
     (fst (summarizeHandler pe w req), calls0 @ snd (summarizeHandler pe w req))"
  by (simp add: summarizeRoute_def split: prod.split)

lemma route_stop:
  "checkJwtJose pe w req = (Inl r, calls0) \<Longrightarrow> summarizeRoute pe w req = (r, calls0)"
  by (simp add: summarizeRoute_def)

lemma handler_valid:
  "Body_parse (body req) = Inr text \<Longrightarrow>
   summarizeHandler pe w req =
     (case fst (tryGemini pe w text) of
        Some r \<Rightarrow> (r, snd (tryGemini pe w text))
      | None \<Rightarrow>
          (case fst (tryOpenAI pe w text) of
             Some r \<Rightarrow> (r, snd (tryGemini pe w text) @ snd (tryOpenAI pe w text))
           | None \<Rightarrow> (demoResponse pe text, snd (tryGemini pe w text) @ snd (tryOpenAI pe w text))))"
  by (cases "tryGemini pe w text"; cases "tryOpenAI pe w text")
     (auto simp: summarizeHandler_def split: option.splits)

lemma handler_invalid:
  "Body_parse (body req) = Inl issues \<Longrightarrow>
   summarizeHandler pe w req =
     (catchHandler pe (JsError (ascii ''ZodError'') (zodMessage w issues)), [])"
  by (simp add: summarizeHandler_def)

lemma checkJwtJose_example:
  assumes "env_AUTH0_DOMAIN pe = Some (ascii ''dev.auth0.com'')"
      and "env_AUTH0_AUDIENCE pe = Some (ascii ''api'')"
  shows "checkJwtJose pe (exampleWorld gm oa) (requestWith bearerAbc b) =
           (Inr [], [CallJwtVerify (ascii ''abc'')])"
  using assms
  by (simp add: checkJwtJose_def JWKS_def ISSUER_def AUTH0_DOMAIN_def AUTH0_AUDIENCE_def
      orElse_def bearerToken_abc requestWith_def exampleWorld_def ascii_def)

lemma Body_parse_textBody:
  "1 \<le> length t \<Longrightarrow> length t \<le> 20000 \<Longrightarrow> Body_parse (textBody t) = Inr t"
  by (cases t) (simp_all add: textBody_def)

lemma GEMINI_MODEL_default: "env_GEMINI_MODEL pe = None \<Longrightarrow> GEMINI_MODEL pe = ascii ''gemini-2.0-flash''"
  by (simp add: GEMINI_MODEL_def orElse_def)


lemma body_example: "Body_parse (body (requestWith h (textBody (ascii ''notes'')))) = Inr (ascii ''notes'')"
  by (simp add: requestWith_def Body_parse_textBody ascii_def)


lemma handler_demo:
  assumes "Body_parse (body req) = Inr text" "geminiFails pe w text"
          "openaiFailsWithoutQuota pe w text"
  shows "fst (summarizeHandler pe w req) = demoResponse pe text"
  using assms tryGemini_None_iff [of pe w "text"] tryOpenAI_None_iff [of pe w "text"]
  by (simp add: handler_valid)

lemma auth_peBoth:
  "checkJwtJose peBoth (exampleWorld gm oa) (requestWith bearerAbc b) =
     (Inr [], [CallJwtVerify (ascii ''abc'')])"
  by (rule checkJwtJose_example) (simp_all add: peBoth_def)

lemma auth_peGeminiOnly:
  "checkJwtJose peGeminiOnly (exampleWorld gm oa) (requestWith bearerAbc b) =
     (Inr [], [CallJwtVerify (ascii ''abc'')])"
  by (rule checkJwtJose_example) (simp_all add: peGeminiOnly_def peBoth_def)

lemma auth_peNoProvider:
  "checkJwtJose peNoProvider (exampleWorld gm oa) (requestWith bearerAbc b) =
     (Inr [], [CallJwtVerify (ascii ''abc'')])"
  by (rule checkJwtJose_example) (simp_all add: peNoProvider_def peBoth_def)

lemma geminiFails_throw: "geminiFails pe (exampleWorld (Inl e) oa) t"
  by (simp add: geminiFails_def exampleWorld_def split: option.split)

lemma openaiFails_none: "openaiFailsWithoutQuota pe (exampleWorld gm (Inr None)) t"
  by (simp add: openaiFailsWithoutQuota_def exampleWorld_def split: option.split)

lemma quotaError_marked: "str_includes (errMessage quotaError) quotaMarker"
  by (simp add: quotaError_def quotaMarker_def ascii_def)

lemma numberToString_5: "numberToString (length (ascii ''notes'')) = ascii ''5''"
  by (simp add: numberToString.simps ascii_def)

lemma tooSmallMessage_unmatched:
  "\<not> str_includes tooSmallMessage (ascii ''ListModels'')"
  "\<not> str_includes tooSmallMessage (ascii ''404 Not Found'')"
  "\<not> str_includes tooSmallMessage (ascii ''models/gemini-pro'')"
  "\<not> str_includes tooSmallMessage atText"
  by (simp_all add: tooSmallMessage_def atText_def quoted_def dquote_def newline_def ascii_def)

lemma tooSmallMessage_not_Nil: "tooSmallMessage \<noteq> []"
  by (simp add: tooSmallMessage_def ascii_def)

lemma modelNotFound_matched: "str_includes (errMessage modelNotFound) (ascii ''404 Not Found'')"
  by (simp add: modelNotFound_def ascii_def)

lemma modelNotFound_message: "errMessage modelNotFound \<noteq> []"
  by (simp add: modelNotFound_def ascii_def)

lemma Body_parse_Inr_iff:
  "Body_parse b = Inr t \<longleftrightarrow>
     (\<exists>kvs. b = JObject kvs \<and> map_of kvs (ascii ''text'') = Some (JString t)
            \<and> 1 \<le> length t \<and> length t \<le> 20000)"
proof (cases b)
  case (JObject kvs)
  show ?thesis
  proof (cases "map_of kvs (ascii ''text'')")
    case None
    with JObject show ?thesis by simp
  next
    case (Some v)
    with JObject show ?thesis by (cases v) (auto simp: Suc_le_eq)
  qed
qed simp_all

lemma bearerToken_None:
  assumes "split 0x20 (orElse h []) = scheme # rest"
      and "toLowerCase scheme \<noteq> ascii ''bearer'' \<or> rest = [] \<or> (\<exists>more. rest = [] # more)"
  shows "bearerToken h = None"
  using assms by (auto simp: bearerToken_def Let_def split: list.splits)

lemma configured_iff:
  "JWKS pe = None \<or> AUTH0_AUDIENCE pe = [] \<or> ISSUER pe = [] \<longleftrightarrow>
     \<not> truthy (env_AUTH0_DOMAIN pe) \<or> \<not> truthy (env_AUTH0_AUDIENCE pe)"
  by (auto simp: JWKS_def ISSUER_def AUTH0_DOMAIN_def AUTH0_AUDIENCE_def orElse_def truthy_def
      split: option.splits if_splits)

lemma checkJwtJose_unconfigured:
  "\<not> truthy (env_AUTH0_DOMAIN pe) \<or> \<not> truthy (env_AUTH0_AUDIENCE pe) \<Longrightarrow>
   checkJwtJose pe w req = (Inl (unauthorized authNotConfigured), [])"
  using configured_iff [of pe]
  by (auto simp: checkJwtJose_def split: option.splits)

lemma checkJwtJose_no_token:
  "bearerToken (authorization req) = None \<Longrightarrow>
   checkJwtJose pe w req = (Inl (unauthorized authNotConfigured), []) \<or>
   checkJwtJose pe w req = (Inl (unauthorized missingBearer), [])"
  by (simp add: checkJwtJose_def split: option.splits)

lemma checkJwtJose_configured_no_token:
  assumes "truthy (env_AUTH0_DOMAIN pe)" "truthy (env_AUTH0_AUDIENCE pe)"
      and "bearerToken (authorization req) = None"
  shows "checkJwtJose pe w req = (Inl (unauthorized missingBearer), [])"
  using assms configured_iff [of pe]
  by (auto simp: checkJwtJose_def split: option.splits)

lemma route_response_cases:
  "(\<exists>s. s \<noteq> [] \<and> fst (summarizeRoute pe w req) =
        \<lparr>status = 200, resBody = [(''summary'', s), (''provider'', ascii ''gemini''),
                                  (''model'', GEMINI_MODEL pe)]\<rparr>)
   \<or> (\<exists>s. s \<noteq> [] \<and> fst (summarizeRoute pe w req) =
        \<lparr>status = 200, resBody = [(''summary'', s), (''provider'', ascii ''openai''),
                                  (''model'', gpt4oMini)]\<rparr>)
   \<or> (\<exists>t. fst (summarizeRoute pe w req) = demoResponse pe t)
   \<or> fst (summarizeRoute pe w req) = quotaResponse
   \<or> fst (summarizeRoute pe w req) = geminiUnavailable pe
   \<or> fst (summarizeRoute pe w req) = invalidBody
   \<or> fst (summarizeRoute pe w req) = unexpectedError
   \<or> (\<exists>d. fst (summarizeRoute pe w req) = unauthorized d)"
proof (cases "checkJwtJose pe w req")
  case (Pair a calls0)
  show ?thesis
  proof (cases a)
    case (Inl r)
    with Pair have "summarizeRoute pe w req = (r, calls0)" by (simp add: route_stop)
    moreover from Pair Inl have "\<exists>d. r = unauthorized d"
      using checkJwtJose_Inl by blast
    ultimately show ?thesis by auto
  next
    case (Inr claims)
    with Pair have rn: "fst (summarizeRoute pe w req) = fst (summarizeHandler pe w req)"
      by (simp add: route_next)
    show ?thesis
    proof (cases "Body_parse (body req)")
      case (Inl issues)
      then show ?thesis
        using catchHandler_cases [of pe "JsError (ascii ''ZodError'') (zodMessage w issues)"]
        by (auto simp: rn handler_invalid)
    next
      case (Inr t)
      show ?thesis
      proof (cases "tryGemini pe w t")
        case g: (Pair gr gcalls)
        show ?thesis
        proof (cases gr)
          case (Some r)
          with g have "fst (summarizeHandler pe w req) = r"
            by (simp add: handler_valid [OF Inr])
          then show ?thesis
            using tryGemini_Some [of pe w t r gcalls] g Some rn by auto
        next
          case None
          show ?thesis
          proof (cases "tryOpenAI pe w t")
            case oa: (Pair orr ocalls)
            show ?thesis
            proof (cases orr)
              case (Some r)
              with g None oa have "fst (summarizeHandler pe w req) = r"
                by (simp add: handler_valid [OF Inr])
              then show ?thesis
                using tryOpenAI_Some [of pe w t r ocalls] oa Some rn by auto
            next
              case n: None
              with g None oa have "fst (summarizeHandler pe w req) = demoResponse pe t"
                by (simp add: handler_valid [OF Inr])
              then show ?thesis using rn by auto
            qed
          qed
        qed
      qed
    qed
  qed
qed

lemma demoSummary_not_Nil: "demoSummary pe t \<noteq> []"
  by (simp add: demoSummary_def bullet_def)

lemma validation_failure_response:
  assumes "checkJwtJose pe w req = (Inr claims, calls0)"
      and "Body_parse (body req) = Inl issues"
  shows "summarizeRoute pe w req =
           (catchHandler pe (JsError (ascii ''ZodError'') (zodMessage w issues)), calls0)"
  using assms by (simp add: route_next handler_invalid)

lemma catchHandler_invalidBody_iff:
  "catchHandler pe e = invalidBody \<longleftrightarrow>
     \<not> str_includes (messageOrSelf e) (ascii ''ListModels'')
     \<and> \<not> str_includes (messageOrSelf e) (ascii ''404 Not Found'')
     \<and> \<not> str_includes (messageOrSelf e) (ascii ''models/gemini-pro'')
     \<and> str_includes (messageOrSelf e) atText"
  by (simp add: catchHandler_def Let_def geminiUnavailable_def invalidBody_def
      unexpectedError_def)

lemma digit_word_bounds:
  "d < 10 \<Longrightarrow> (0x30 :: 16 word) \<le> 48 + word_of_nat d \<and> (48 + word_of_nat d :: 16 word) \<le> 0x39"
  by (simp add: word_le_nat_alt unat_digit)

lemma isDigit_digit: "d < 10 \<Longrightarrow> isDigit (48 + word_of_nat d)"
  using digit_word_bounds [of d] by (simp add: isDigit_def)

lemma isDigit_numberToString: "list_all isDigit (numberToString n)"
proof (induction n rule: numberToString.induct)
  case (1 n)
  show ?case
  proof (cases "n < 10")
    case True
    then show ?thesis
      by (simp add: numberToString.simps [of n] isDigit_digit)
  next
    case False
    then have "list_all isDigit (numberToString (n div 10))"
      using "1.IH" by simp
    moreover have "isDigit (48 + word_of_nat (n mod 10))"
      by (rule isDigit_digit) simp
    ultimately show ?thesis
      using False by (simp add: numberToString.simps [of n])
  qed
qed

lemma numberToString_not_Nil: "numberToString n \<noteq> []"
  by (simp add: numberToString.simps [of n])

lemma digit_zero_iff: "d < 10 \<Longrightarrow> (48 + word_of_nat d :: 16 word) = 48 \<longleftrightarrow> d = 0"
proof
  assume d: "d < 10" and eq: "(48 + word_of_nat d :: 16 word) = 48"
  from eq have "unat (48 + word_of_nat d :: 16 word) = unat (48 :: 16 word)" by simp
  with d show "d = 0" by (simp add: unat_digit)
qed simp

lemma word_of_digit_zero_iff: "d < 10 \<Longrightarrow> (word_of_nat d :: 16 word) = 0 \<longleftrightarrow> d = 0"
proof -
  assume d: "d < 10"
  have "(word_of_nat d :: 16 word) = 0 \<longleftrightarrow> (48 + word_of_nat d :: 16 word) = 48" by simp
  with d show ?thesis by (simp only: digit_zero_iff)
qed

lemma numberToString_leading_zero: "hd (numberToString n) = 0x30 \<longleftrightarrow> n = 0"
proof (induction n rule: numberToString.induct)
  case (1 n)
  show ?case
  proof (cases "n < 10")
    case True
    then show ?thesis
      by (simp add: numberToString.simps [of n] word_of_digit_zero_iff)
  next
    case False
    then have "hd (numberToString (n div 10)) = 0x30 \<longleftrightarrow> n div 10 = 0"
      using "1.IH" by simp
    moreover have "n div 10 \<noteq> 0" using False by simp
    ultimately show ?thesis
      using False numberToString_not_Nil [of "n div 10"]
      by (simp add: numberToString.simps [of n])
  qed
qed

lemma GEMINI_MODEL_configured:
  "(env_GEMINI_MODEL pe = Some model \<and> model \<noteq> [])
   \<or> ((env_GEMINI_MODEL pe = None \<or> env_GEMINI_MODEL pe = Some [])
        \<and> model = ascii ''gemini-2.0-flash'')
   \<Longrightarrow> GEMINI_MODEL pe = model"
  by (auto simp: GEMINI_MODEL_def orElse_def)

lemma bearerToken_Some:
  assumes "split 0x20 (orElse h []) = scheme # token # rest"
      and "toLowerCase scheme = ascii ''bearer''" and "token \<noteq> []"
  shows "bearerToken h = Some token"
  using assms by (simp add: bearerToken_def Let_def)

lemma checkJwtJose_refused:
  assumes "env_AUTH0_DOMAIN pe = Some domain" "domain \<noteq> []"
      and "env_AUTH0_AUDIENCE pe = Some aud" "aud \<noteq> []"
      and "bearerToken (authorization req) = Some token"
      and "jwtVerify w token (ascii ''https://'' @ domain @ ascii ''/.well-known/jwks.json'')
             (ascii ''https://'' @ domain @ ascii ''/'') aud = Inl e"
  shows "checkJwtJose pe w req = (Inl (unauthorized (messageOrSelf e)), [CallJwtVerify token])"
  using assms
  by (simp add: checkJwtJose_def JWKS_def ISSUER_def AUTH0_DOMAIN_def AUTH0_AUDIENCE_def
      orElse_def ascii_def)


lemma express_json_authorization:
  "express_json limit skipped hr = Inr req \<Longrightarrow> authorization req = headerAuthorization hr"
  by (auto simp: express_json_def split: if_splits option.splits json.splits)

lemma app_parser_rejected:
  "express_json jsonLimit (skippedBody w) hr = Inl code \<Longrightarrow>
   app_post_summarize pe w hr = (ParserRejected code, [])"
  by (simp add: app_post_summarize_def)

lemma app_parser_passed:
  "express_json jsonLimit (skippedBody w) hr = Inr req \<Longrightarrow>
   app_post_summarize pe w hr =
     (Answered (fst (summarizeRoute pe w req)), snd (summarizeRoute pe w req))"
  by (simp add: app_post_summarize_def split: prod.split)

lemma auth_peLite:
  "checkJwtJose peLite (exampleWorld gm oa) (requestWith bearerAbc b) =
     (Inr [], [CallJwtVerify (ascii ''abc'')])"
  by (rule checkJwtJose_example) (simp_all add: peLite_def peBoth_def)


lemma bearerToken_bad: "bearerToken (Some (ascii ''Bearer bad'')) = Some (ascii ''bad'')"
  by (simp add: bearerToken_def orElse_def ascii_def toLowerCase_def lowerChar_def Let_def)


lemma numberToString_20000: "numberToString 20000 = ascii ''20000''"
  by (simp add: numberToString.simps ascii_def)

lemma body_long:
  "Body_parse (body (requestWith h (textBody (replicate 20000 0x61)))) = Inr (replicate 20000 0x61)"
  by (simp add: requestWith_def Body_parse_textBody)

lemma express_json_example:
  "express_json jsonLimit sk (jsonRequest h 64 (Some (textBody t))) = Inr (requestWith h (textBody t))"
  by (simp add: express_json_def jsonRequest_def jsonLimit_def textBody_def requestWith_def)

lemma express_json_oversized:
  "express_json jsonLimit sk (jsonRequest h 1048577 p) = Inl 413"
  by (simp add: express_json_def jsonRequest_def jsonLimit_def)

section \<open>Quota failures\<close>

text \<open>
  C1, as stated, fails when Gemini is the sole configured adapter and its call throws a
  quota error: the response is the demo response with status 200, not 429.
\<close>

theorem C1_sole_gemini_quota_counterexample:
  "env_OPENAI_API_KEY peGeminiOnly = None
   \<and> env_GEMINI_API_KEY peGeminiOnly = Some (ascii ''gk'')
   \<and> generateContent (exampleWorld (Inl quotaError) (Inr None)) (ascii ''gk'')
         (GEMINI_MODEL peGeminiOnly) (promptPrefix @ ascii ''notes'') = Inl quotaError
   \<and> str_includes (errMessage quotaError) quotaMarker
   \<and> status (fst (summarizeRoute peGeminiOnly (exampleWorld (Inl quotaError) (Inr None))
         (requestWith bearerAbc (textBody (ascii ''notes''))))) = 200
   \<and> field (fst (summarizeRoute peGeminiOnly (exampleWorld (Inl quotaError) (Inr None))
         (requestWith bearerAbc (textBody (ascii ''notes''))))) ''provider'' = Some (ascii ''demo'')"
proof -
  let ?w = "exampleWorld (Inl quotaError) (Inr None)"
  let ?req = "requestWith bearerAbc (textBody (ascii ''notes''))"
  have "fst (summarizeHandler peGeminiOnly ?w ?req) = demoResponse peGeminiOnly (ascii ''notes'')"
    by (rule handler_demo [OF body_example geminiFails_throw openaiFails_none])
  then have "fst (summarizeRoute peGeminiOnly ?w ?req) = demoResponse peGeminiOnly (ascii ''notes'')"
    by (simp add: route_next [OF auth_peGeminiOnly])
  then show ?thesis
    by (simp add: quotaError_marked demoResponse_def field_def peGeminiOnly_def peBoth_def
        exampleWorld_def)
qed

text \<open>
  C1, amended. For an authenticated, valid request for which the Gemini adapter fails
  (whatever the cause, quota included) or is not configured: when OpenAI is configured it
  is invoked, and when its call throws an error whose message contains
  \<open>exceeded your current quota\<close> the response is the 429 quota response with provider
  \<open>openai\<close>; when OpenAI is not configured (its key unset or empty) the response is the
  demo response with status 200.
\<close>

theorem C1_quota_terminal_on_openai:
  assumes "checkJwtJose pe w req = (Inr claims, calls0)"
      and "Body_parse (body req) = Inr text"
      and "geminiFails pe w text"
  shows "(env_OPENAI_API_KEY pe = Some ok \<and> ok \<noteq> []
            \<and> chatCompletion w ok gpt4oMini systemPrompt text = Inl oerr
            \<and> str_includes (errMessage oerr) quotaMarker
          \<longrightarrow> fst (summarizeRoute pe w req) = quotaResponse)
       \<and> status quotaResponse = 429
       \<and> field quotaResponse ''provider'' = Some (ascii ''openai'')
       \<and> (env_OPENAI_API_KEY pe = Some ok \<and> ok \<noteq> []
          \<longrightarrow> CallOpenAI gpt4oMini text \<in> set (snd (summarizeRoute pe w req)))
       \<and> (env_OPENAI_API_KEY pe = None \<or> env_OPENAI_API_KEY pe = Some []
          \<longrightarrow> fst (summarizeRoute pe w req) = demoResponse pe text
              \<and> status (demoResponse pe text) = 200)"
proof -
  have g: "fst (tryGemini pe w text) = None"
    using assms(3) by (simp add: tryGemini_None_iff)
  have rn: "summarizeRoute pe w req =
      (fst (summarizeHandler pe w req), calls0 @ snd (summarizeHandler pe w req))"
    using assms(1) by (rule route_next)
  have h: "summarizeHandler pe w req =
      (case fst (tryOpenAI pe w text) of
         Some r \<Rightarrow> (r, snd (tryGemini pe w text) @ snd (tryOpenAI pe w text))
       | None \<Rightarrow> (demoResponse pe text, snd (tryGemini pe w text) @ snd (tryOpenAI pe w text)))"
    using g by (simp add: handler_valid [OF assms(2)])
  have 1: "fst (summarizeRoute pe w req) = quotaResponse"
    if "env_OPENAI_API_KEY pe = Some ok \<and> ok \<noteq> []
            \<and> chatCompletion w ok gpt4oMini systemPrompt text = Inl oerr
            \<and> str_includes (errMessage oerr) quotaMarker"
  proof -
    from that have "fst (tryOpenAI pe w text) = Some quotaResponse"
      by (simp add: tryOpenAI_def catchOpenAI_def)
    then show ?thesis by (simp add: rn h)
  qed
  have 2: "CallOpenAI gpt4oMini text \<in> set (snd (summarizeRoute pe w req))"
    if "env_OPENAI_API_KEY pe = Some ok \<and> ok \<noteq> []"
  proof -
    from that have "snd (tryOpenAI pe w text) = [CallOpenAI gpt4oMini text]"
      by (simp add: tryOpenAI_def Let_def split: sum.split)
    then show ?thesis by (simp add: rn h split: option.split)
  qed
  have 3: "fst (summarizeRoute pe w req) = demoResponse pe text"
    if "env_OPENAI_API_KEY pe = None \<or> env_OPENAI_API_KEY pe = Some []"
  proof -
    from that have "fst (tryOpenAI pe w text) = None"
      by (auto simp: tryOpenAI_def)
    then show ?thesis by (simp add: rn h)
  qed
  show ?thesis
    using 1 2 3 by (simp add: quotaResponse_def demoResponse_def field_def)
qed

theorem C1_quota_terminal_on_openai_witness:
  "fst (summarizeRoute peBoth (exampleWorld (Inl quotaError) (Inl quotaError))
         (requestWith bearerAbc (textBody (ascii ''notes'')))) = quotaResponse
   \<and> CallOpenAI gpt4oMini (ascii ''notes'')
       \<in> set (snd (summarizeRoute peBoth (exampleWorld (Inl quotaError) (Inl quotaError))
                (requestWith bearerAbc (textBody (ascii ''notes'')))))
   \<and> fst (summarizeRoute peGeminiOnly (exampleWorld (Inl quotaError) (Inl quotaError))
         (requestWith bearerAbc (textBody (ascii ''notes''))))
      = demoResponse peGeminiOnly (ascii ''notes'')"
proof -
  let ?w = "exampleWorld (Inl quotaError) (Inl quotaError)"
  let ?req = "requestWith bearerAbc (textBody (ascii ''notes''))"
  have k: "env_OPENAI_API_KEY peBoth = Some (ascii ''ok'')" "ascii ''ok'' \<noteq> []"
          "env_OPENAI_API_KEY peGeminiOnly = None"
    by (simp_all add: peBoth_def peGeminiOnly_def ascii_def)
  have c: "chatCompletion ?w (ascii ''ok'') gpt4oMini systemPrompt (ascii ''notes'') = Inl quotaError"
    by (simp add: exampleWorld_def)
  show ?thesis
    using C1_quota_terminal_on_openai [of peBoth "?w" "?req" "[]" "[CallJwtVerify (ascii ''abc'')]"
            "ascii ''notes''" "ascii ''ok''" quotaError,
            OF auth_peBoth body_example geminiFails_throw]
          C1_quota_terminal_on_openai [of peGeminiOnly "?w" "?req" "[]"
            "[CallJwtVerify (ascii ''abc'')]" "ascii ''notes''" "ascii ''ok''" quotaError,
            OF auth_peGeminiOnly body_example geminiFails_throw]
          k c quotaError_marked
    by simp
qed

section \<open>Ordered fallback\<close>



section \<open>The demo response\<close>

text \<open>
  C3. Let the model be the value of \<open>GEMINI_MODEL\<close> in the environment, or
  \<open>gemini-2.0-flash\<close> when that is unset or empty. For an authenticated, valid request
  for which the Gemini adapter fails or is not configured, and the OpenAI adapter fails
  without a quota condition or is not configured, the response is the demo response:
  status 200, provider \<open>demo\<close>, and the five-line summary written out below, fixed by
  the configuration and the text alone. It contains the marker that no provider responded,
  the model, the configuration tip, and the length of the text, rendered as its decimal
  numeral: digits only, no leading zero, denoting the length.
\<close>

theorem C3_demo_fallback:
  assumes "checkJwtJose pe w req = (Inr claims, calls0)"
      and "Body_parse (body req) = Inr text"
      and "geminiFails pe w text"
      and "openaiFailsWithoutQuota pe w text"
      and "(env_GEMINI_MODEL pe = Some model \<and> model \<noteq> [])
           \<or> ((env_GEMINI_MODEL pe = None \<or> env_GEMINI_MODEL pe = Some [])
                \<and> model = ascii ''gemini-2.0-flash'')"
  shows "fst (summarizeRoute pe w req) =
           \<lparr>status = 200,
            resBody =
              [(''summary'',
                [0x2022] @ ascii '' (Demo) No AI provider responded'' @ [0x0A] @
                [0x2022] @ ascii '' Gemini model tried: '' @ model @ [0x0A] @
                [0x2022] @ ascii '' Tip: set GEMINI_API_KEY (AI Studio) with gemini-2.0-flash''
                  @ [0x0A] @
                [0x2022] @ ascii '' Or add OPENAI_API_KEY (with quota)'' @ [0x0A] @
                [0x2022] @ ascii '' Input length: '' @ numberToString (length text)
                  @ ascii '' chars''),
               (''provider'', ascii ''demo'')]\<rparr>
       \<and> fst (summarizeRoute pe w req) = demoResponse pe text
       \<and> status (demoResponse pe text) = 200
       \<and> field (demoResponse pe text) ''provider'' = Some (ascii ''demo'')
       \<and> field (demoResponse pe text) ''summary'' = Some (demoSummary pe text)
       \<and> str_includes (demoSummary pe text) (ascii ''(Demo) No AI provider responded'')
       \<and> str_includes (demoSummary pe text) (ascii ''Gemini model tried: '' @ model)
       \<and> str_includes (demoSummary pe text) (ascii ''Tip: set GEMINI_API_KEY'')
       \<and> str_includes (demoSummary pe text)
             (ascii ''Input length: '' @ numberToString (length text) @ ascii '' chars'')
       \<and> list_all isDigit (numberToString (length text))
       \<and> numberToString (length text) \<noteq> []
       \<and> hd (numberToString (length text)) \<noteq> 0x30
       \<and> digitsValue (numberToString (length text)) = length text"
proof -
  have m: "GEMINI_MODEL pe = model"
    using assms(5) by (rule GEMINI_MODEL_configured)
  have r: "fst (summarizeRoute pe w req) = demoResponse pe text"
    using assms(1-4) by (simp add: route_next handler_demo)
  have lit: "demoResponse pe text =
           \<lparr>status = 200,
            resBody =
              [(''summary'',
                [0x2022] @ ascii '' (Demo) No AI provider responded'' @ [0x0A] @
                [0x2022] @ ascii '' Gemini model tried: '' @ model @ [0x0A] @
                [0x2022] @ ascii '' Tip: set GEMINI_API_KEY (AI Studio) with gemini-2.0-flash''
                  @ [0x0A] @
                [0x2022] @ ascii '' Or add OPENAI_API_KEY (with quota)'' @ [0x0A] @
                [0x2022] @ ascii '' Input length: '' @ numberToString (length text)
                  @ ascii '' chars''),
               (''provider'', ascii ''demo'')]\<rparr>"
    by (simp add: demoResponse_def demoSummary_def bullet_def newline_def m)
  have s1: "str_includes (demoSummary pe text) (ascii ''(Demo) No AI provider responded'')"
  proof -
    have "\<exists>q. demoSummary pe text =
            (bullet @ ascii '' '') @ ascii ''(Demo) No AI provider responded'' @ q"
      by (simp add: demoSummary_def ascii_def)
    then show ?thesis using str_includes_mid by metis
  qed
  have s2: "str_includes (demoSummary pe text) (ascii ''Gemini model tried: '' @ model)"
  proof -
    have "\<exists>p q. demoSummary pe text =
            (p @ ascii '' '') @ (ascii ''Gemini model tried: '' @ model) @ q"
      unfolding demoSummary_def m
      by (rule exI [of _ "bullet @ ascii '' (Demo) No AI provider responded'' @ newline @ bullet"])
         (simp add: ascii_def)
    then show ?thesis using str_includes_mid by metis
  qed
  have s3: "str_includes (demoSummary pe text) (ascii ''Tip: set GEMINI_API_KEY'')"
  proof -
    have "\<exists>p q. demoSummary pe text = (p @ ascii '' '') @ ascii ''Tip: set GEMINI_API_KEY'' @ q"
      unfolding demoSummary_def
      by (rule exI [of _ "bullet @ ascii '' (Demo) No AI provider responded'' @ newline @
              bullet @ ascii '' Gemini model tried: '' @ GEMINI_MODEL pe @ newline @ bullet"])
         (simp add: ascii_def)
    then show ?thesis using str_includes_mid by metis
  qed
  have s4: "str_includes (demoSummary pe text)
             (ascii ''Input length: '' @ numberToString (length text) @ ascii '' chars'')"
  proof -
    have "\<exists>p. demoSummary pe text =
            (p @ ascii '' '') @
            (ascii ''Input length: '' @ numberToString (length text) @ ascii '' chars'') @ []"
      unfolding demoSummary_def
      by (rule exI [of _ "bullet @ ascii '' (Demo) No AI provider responded'' @ newline @
              bullet @ ascii '' Gemini model tried: '' @ GEMINI_MODEL pe @ newline @
              bullet @ ascii '' Tip: set GEMINI_API_KEY (AI Studio) with gemini-2.0-flash'' @ newline @
              bullet @ ascii '' Or add OPENAI_API_KEY (with quota)'' @ newline @ bullet"])
         (simp add: ascii_def)
    then show ?thesis using str_includes_mid by metis
  qed
  have len: "length text \<noteq> 0"
    using assms(2) Body_parse_Inr_iff [of "body req" "text"] by auto
  have lz: "hd (numberToString (length text)) \<noteq> 0x30"
    using len numberToString_leading_zero [of "length text"] by simp
  have rl: "fst (summarizeRoute pe w req) =
           \<lparr>status = 200,
            resBody =
              [(''summary'',
                [0x2022] @ ascii '' (Demo) No AI provider responded'' @ [0x0A] @
                [0x2022] @ ascii '' Gemini model tried: '' @ model @ [0x0A] @
                [0x2022] @ ascii '' Tip: set GEMINI_API_KEY (AI Studio) with gemini-2.0-flash''
                  @ [0x0A] @
                [0x2022] @ ascii '' Or add OPENAI_API_KEY (with quota)'' @ [0x0A] @
                [0x2022] @ ascii '' Input length: '' @ numberToString (length text)
                  @ ascii '' chars''),
               (''provider'', ascii ''demo'')]\<rparr>"
    using r lit by simp
  have f: "status (demoResponse pe text) = 200"
          "field (demoResponse pe text) ''provider'' = Some (ascii ''demo'')"
          "field (demoResponse pe text) ''summary'' = Some (demoSummary pe text)"
    by (simp_all add: demoResponse_def field_def)
  show ?thesis
    using rl r f s1 s2 s3 s4 lz isDigit_numberToString [of "length text"]
      numberToString_not_Nil [of "length text"] digitsValue_numberToString [of "length text"]
    by blast
qed

theorem C3_demo_fallback_witness:
  "fst (summarizeRoute peLite (exampleWorld (Inl networkError) (Inr None))
         (requestWith bearerAbc (textBody (replicate 20000 0x61))))
     = \<lparr>status = 200,
        resBody =
          [(''summary'',
            [0x2022] @ ascii '' (Demo) No AI provider responded'' @ [0x0A] @
            [0x2022] @ ascii '' Gemini model tried: gemini-2.5-flash-lite'' @ [0x0A] @
            [0x2022] @ ascii '' Tip: set GEMINI_API_KEY (AI Studio) with gemini-2.0-flash''
              @ [0x0A] @
            [0x2022] @ ascii '' Or add OPENAI_API_KEY (with quota)'' @ [0x0A] @
            [0x2022] @ ascii '' Input length: 20000 chars''),
           (''provider'', ascii ''demo'')]\<rparr>
   \<and> fst (summarizeRoute peNoProvider (exampleWorld (Inr (ascii ''s'')) (Inr (Some (ascii ''s''))))
         (requestWith bearerAbc (textBody (ascii ''notes''))))
     = \<lparr>status = 200,
        resBody =
          [(''summary'',
            [0x2022] @ ascii '' (Demo) No AI provider responded'' @ [0x0A] @
            [0x2022] @ ascii '' Gemini model tried: gemini-2.0-flash'' @ [0x0A] @
            [0x2022] @ ascii '' Tip: set GEMINI_API_KEY (AI Studio) with gemini-2.0-flash''
              @ [0x0A] @
            [0x2022] @ ascii '' Or add OPENAI_API_KEY (with quota)'' @ [0x0A] @
            [0x2022] @ ascii '' Input length: 5 chars''),
           (''provider'', ascii ''demo'')]\<rparr>"
proof -
  let ?w1 = "exampleWorld (Inl networkError) (Inr None)"
  let ?req1 = "requestWith bearerAbc (textBody (replicate 20000 0x61))"
  let ?w2 = "exampleWorld (Inr (ascii ''s'')) (Inr (Some (ascii ''s'')))"
  let ?req2 = "requestWith bearerAbc (textBody (ascii ''notes''))"
  have m1: "(env_GEMINI_MODEL peLite = Some (ascii ''gemini-2.5-flash-lite'')
              \<and> ascii ''gemini-2.5-flash-lite'' \<noteq> [])
           \<or> ((env_GEMINI_MODEL peLite = None \<or> env_GEMINI_MODEL peLite = Some [])
                \<and> ascii ''gemini-2.5-flash-lite'' = ascii ''gemini-2.0-flash'')"
    by (simp add: peLite_def ascii_def)
  have m2: "(env_GEMINI_MODEL peNoProvider = Some (ascii ''gemini-2.0-flash'')
              \<and> ascii ''gemini-2.0-flash'' \<noteq> [])
           \<or> ((env_GEMINI_MODEL peNoProvider = None \<or> env_GEMINI_MODEL peNoProvider = Some [])
                \<and> ascii ''gemini-2.0-flash'' = ascii ''gemini-2.0-flash'')"
    by (simp add: peNoProvider_def peBoth_def)
  have g2: "geminiFails peNoProvider ?w2 (ascii ''notes'')"
    by (simp add: geminiFails_def peNoProvider_def peBoth_def)
  have o2: "openaiFailsWithoutQuota peNoProvider ?w2 (ascii ''notes'')"
    by (simp add: openaiFailsWithoutQuota_def peNoProvider_def peBoth_def)
  have c1: "fst (summarizeRoute peLite ?w1 ?req1) =
           \<lparr>status = 200,
            resBody =
              [(''summary'',
                [0x2022] @ ascii '' (Demo) No AI provider responded'' @ [0x0A] @
                [0x2022] @ ascii '' Gemini model tried: '' @ ascii ''gemini-2.5-flash-lite'' @ [0x0A] @
                [0x2022] @ ascii '' Tip: set GEMINI_API_KEY (AI Studio) with gemini-2.0-flash''
                  @ [0x0A] @
                [0x2022] @ ascii '' Or add OPENAI_API_KEY (with quota)'' @ [0x0A] @
                [0x2022] @ ascii '' Input length: '' @ numberToString (length (replicate 20000 (0x61 :: jschar)))
                  @ ascii '' chars''),
               (''provider'', ascii ''demo'')]\<rparr>"
    using C3_demo_fallback [of peLite "?w1" "?req1" "[]" "[CallJwtVerify (ascii ''abc'')]"
            "replicate 20000 0x61" "ascii ''gemini-2.5-flash-lite''",
            OF auth_peLite body_long geminiFails_throw openaiFails_none m1]
    by blast
  have c2: "fst (summarizeRoute peNoProvider ?w2 ?req2) =
           \<lparr>status = 200,
            resBody =
              [(''summary'',
                [0x2022] @ ascii '' (Demo) No AI provider responded'' @ [0x0A] @
                [0x2022] @ ascii '' Gemini model tried: '' @ ascii ''gemini-2.0-flash'' @ [0x0A] @
                [0x2022] @ ascii '' Tip: set GEMINI_API_KEY (AI Studio) with gemini-2.0-flash''
                  @ [0x0A] @
                [0x2022] @ ascii '' Or add OPENAI_API_KEY (with quota)'' @ [0x0A] @
                [0x2022] @ ascii '' Input length: '' @ numberToString (length (ascii ''notes''))
                  @ ascii '' chars''),
               (''provider'', ascii ''demo'')]\<rparr>"
    using C3_demo_fallback [of peNoProvider "?w2" "?req2" "[]" "[CallJwtVerify (ascii ''abc'')]"
            "ascii ''notes''" "ascii ''gemini-2.0-flash''",
            OF auth_peNoProvider body_example g2 o2 m2]
    by blast
  have n1: "numberToString (length (replicate 20000 (0x61 :: jschar))) = ascii ''20000''"
    by (simp add: numberToString_20000)
  show ?thesis
    using c1 [unfolded n1] c2 [unfolded numberToString_5] by (simp add: ascii_def)
qed

section \<open>Validation of the body\<close>

text \<open>
  C4. The code answers an empty \<open>text\<close> with status 500, not 400: the handler's catch
  block recognises a validation failure by the substring \<open>at "text"\<close> of the error
  message, and the message zod gives its error, the issue list printed as JSON, does not
  contain it. The request below is authenticated and its body is \<open>{"text": ""}\<close>.
\<close>

theorem C4_empty_text_answered_500:
  "Body_parse (body (requestWith bearerAbc (textBody []))) = Inl [TooSmall [ascii ''text''] 1]
   \<and> summarizeRoute peBoth (exampleWorld (Inr (ascii ''s'')) (Inr None))
         (requestWith bearerAbc (textBody []))
       = (unexpectedError, [CallJwtVerify (ascii ''abc'')])
   \<and> status unexpectedError = 500"
proof -
  let ?w = "exampleWorld (Inr (ascii ''s'')) (Inr None)"
  let ?req = "requestWith bearerAbc (textBody [])"
  have b: "Body_parse (body ?req) = Inl [TooSmall [ascii ''text''] 1]"
    by (simp add: requestWith_def textBody_def)
  have z: "zodMessage ?w issues = tooSmallMessage" for issues
    by (simp add: exampleWorld_def)
  have c: "catchHandler peBoth (JsError (ascii ''ZodError'') tooSmallMessage) = unexpectedError"
    by (simp add: catchHandler_def messageOrSelf_def tooSmallMessage_not_Nil
        tooSmallMessage_unmatched)
  have "summarizeRoute peBoth ?w ?req = (unexpectedError, [CallJwtVerify (ascii ''abc'')])"
    by (simp add: route_next [OF auth_peBoth] handler_invalid [OF b] z c)
  then show ?thesis
    using b by (simp add: unexpectedError_def)
qed

section \<open>The shape of responses\<close>

text \<open>
  C5, as stated, fails on the unauthorized path: the 401 response to a request without an
  \<open>Authorization\<close> header has no \<open>provider\<close> field.
\<close>

theorem C5_unauthorized_without_provider_counterexample:
  "status (fst (summarizeRoute peBoth (exampleWorld (Inr (ascii ''s'')) (Inr None))
                 (requestWith None (textBody (ascii ''notes''))))) = 401
   \<and> field (fst (summarizeRoute peBoth (exampleWorld (Inr (ascii ''s'')) (Inr None))
                 (requestWith None (textBody (ascii ''notes''))))) ''provider'' = None"
proof -
  have t: "truthy (env_AUTH0_DOMAIN peBoth)" "truthy (env_AUTH0_AUDIENCE peBoth)"
    by (simp_all add: peBoth_def truthy_def ascii_def)
  have b: "bearerToken (authorization (requestWith None (textBody (ascii ''notes'')))) = None"
    by (simp add: requestWith_def bearerToken_def orElse_def ascii_def toLowerCase_def Let_def)
  show ?thesis
    by (simp add: route_stop [OF checkJwtJose_configured_no_token [OF t b]]
        unauthorized_def field_def)
qed

text \<open>
  C5, amended. The response of the route has status 200, 400, 401, 429 or 500; it carries
  a \<open>summary\<close>, which is not empty, exactly when its status is 200, and an \<open>error\<close>
  exactly when its status is not 200. The \<open>provider\<close> field is absent exactly on the unauthorized
  (401), invalid-body (400) and unexpected-error (500) responses; on a 200 response it is
  \<open>gemini\<close>, \<open>openai\<close> or \<open>demo\<close>.
\<close>

theorem C5_response_shape:
  assumes "fst (summarizeRoute pe w req) = r"
  shows "(status r = 200 \<or> status r = 400 \<or> status r = 401 \<or> status r = 429 \<or> status r = 500)
       \<and> (status r = 200 \<longleftrightarrow> (\<exists>s. s \<noteq> [] \<and> field r ''summary'' = Some s))
       \<and> (status r = 200 \<longleftrightarrow> field r ''error'' = None)
       \<and> (status r = 200 \<or> field r ''summary'' = None)
       \<and> (field r ''provider'' = None \<longleftrightarrow>
            (\<exists>d. r = unauthorized d) \<or> r = invalidBody \<or> r = unexpectedError)
       \<and> (status r = 200 \<longrightarrow>
            field r ''provider'' = Some (ascii ''gemini'') \<or>
            field r ''provider'' = Some (ascii ''openai'') \<or>
            field r ''provider'' = Some (ascii ''demo''))"
proof -
  consider
      (gemini) s where "s \<noteq> []" "r = \<lparr>status = 200, resBody = [(''summary'', s),
                          (''provider'', ascii ''gemini''), (''model'', GEMINI_MODEL pe)]\<rparr>"
    | (openai) s where "s \<noteq> []" "r = \<lparr>status = 200, resBody = [(''summary'', s),
                          (''provider'', ascii ''openai''), (''model'', gpt4oMini)]\<rparr>"
    | (demo) t where "r = demoResponse pe t"
    | (quota) "r = quotaResponse"
    | (misconfigured) "r = geminiUnavailable pe"
    | (invalid) "r = invalidBody"
    | (unexpected) "r = unexpectedError"
    | (unauth) d where "r = unauthorized d"
    using route_response_cases [of pe w req] assms by auto
  then show ?thesis
  proof cases
    case gemini
    then show ?thesis
      by (simp add: field_def unauthorized_def invalidBody_def unexpectedError_def)
  next
    case openai
    then show ?thesis
      by (simp add: field_def unauthorized_def invalidBody_def unexpectedError_def)
  next
    case demo
    then show ?thesis
      by (simp add: field_def demoResponse_def demoSummary_not_Nil unauthorized_def
          invalidBody_def unexpectedError_def)
  next
    case quota
    then show ?thesis
      by (simp add: field_def quotaResponse_def unauthorized_def invalidBody_def
          unexpectedError_def)
  next
    case misconfigured
    then show ?thesis
      by (simp add: field_def geminiUnavailable_def unauthorized_def invalidBody_def
          unexpectedError_def)
  next
    case invalid
    then show ?thesis
      by (simp add: field_def invalidBody_def)
  next
    case unexpected
    then show ?thesis
      by (simp add: field_def unexpectedError_def)
  next
    case unauth
    then show ?thesis
      by (auto simp: field_def unauthorized_def)
  qed
qed

theorem C5_response_shape_witness:
  "field (demoResponse peNoProvider (ascii ''notes'')) ''provider'' = Some (ascii ''demo'')
   \<and> field (demoResponse peNoProvider (ascii ''notes'')) ''error'' = None"
proof -
  let ?w = "exampleWorld (Inl networkError) (Inr None)"
  let ?req = "requestWith bearerAbc (textBody (ascii ''notes''))"
  have "fst (summarizeHandler peNoProvider ?w ?req) = demoResponse peNoProvider (ascii ''notes'')"
    by (rule handler_demo [OF body_example geminiFails_throw openaiFails_none])
  then have r: "fst (summarizeRoute peNoProvider ?w ?req) = demoResponse peNoProvider (ascii ''notes'')"
    by (simp add: route_next [OF auth_peNoProvider])
  have s: "status (demoResponse peNoProvider (ascii ''notes'')) = 200"
    by (simp add: demoResponse_def)
  have n: "field (demoResponse peNoProvider (ascii ''notes'')) ''provider'' \<noteq> Some (ascii ''gemini'')"
          "field (demoResponse peNoProvider (ascii ''notes'')) ''provider'' \<noteq> Some (ascii ''openai'')"
    by (simp_all add: demoResponse_def field_def ascii_def)
  show ?thesis
    using C5_response_shape [OF r] s n by simp
qed

section \<open>No provider call before authentication and validation\<close>

text \<open>
  C6, as stated, fails for a request the body parser rejects: an oversized request without
  an \<open>Authorization\<close> header is answered 413 by the parser, not 401.
\<close>

theorem C6_oversized_request_without_header_counterexample:
  "headerAuthorization (jsonRequest None 1048577 (Some (textBody (ascii ''notes'')))) = None
   \<and> app_post_summarize peBoth strictWorld
         (jsonRequest None 1048577 (Some (textBody (ascii ''notes''))))
       = (ParserRejected 413, [])"
proof -
  have "headerAuthorization (jsonRequest None 1048577 (Some (textBody (ascii ''notes'')))) = None"
    by (simp add: jsonRequest_def)
  then show ?thesis
    using app_parser_rejected [OF express_json_oversized] by simp
qed

text \<open>
  C6, amended. A request the body parser rejects is answered with the parser's status and
  no call is made. For a request the parser passes on, when the \<open>Authorization\<close> header
  is missing or malformed (its scheme is not \<open>bearer\<close> in any letter case, or no token
  follows it, or the token is empty), the response is 401 and no call at all is made. With
  authentication configured, when \<open>jwtVerify\<close>, called with the token, the key set and
  issuer of the configured domain and the configured audience, refuses the token, the
  response is 401 with the error's message as detail, and \<open>jwtVerify\<close>'s is the only
  call. Whenever the middleware answers instead of calling \<open>next()\<close>, its answer is the
  response, it is a 401, and no provider was called. When the body fails validation, no
  provider is called.
\<close>

theorem C6_no_provider_call_without_auth_or_validation:
  "(express_json jsonLimit (skippedBody w) hr = Inl code
      \<longrightarrow> app_post_summarize pe w hr = (ParserRejected code, []))
   \<and> (express_json jsonLimit (skippedBody w) hr = Inr req
        \<and> split 0x20 (orElse (headerAuthorization hr) []) = scheme # rest
        \<and> (toLowerCase scheme \<noteq> ascii ''bearer'' \<or> rest = [] \<or> (\<exists>more. rest = [] # more))
      \<longrightarrow> (\<exists>r. app_post_summarize pe w hr = (Answered r, []) \<and> status r = 401))
   \<and> (env_AUTH0_DOMAIN pe = Some domain \<and> domain \<noteq> []
        \<and> env_AUTH0_AUDIENCE pe = Some aud \<and> aud \<noteq> []
        \<and> split 0x20 (orElse (authorization req) []) = sch # token # others
        \<and> toLowerCase sch = ascii ''bearer'' \<and> token \<noteq> []
        \<and> jwtVerify w token (ascii ''https://'' @ domain @ ascii ''/.well-known/jwks.json'')
              (ascii ''https://'' @ domain @ ascii ''/'') aud = Inl e
      \<longrightarrow> status (fst (summarizeRoute pe w req)) = 401
          \<and> snd (summarizeRoute pe w req) = [CallJwtVerify token]
          \<and> (errMessage e \<noteq> []
             \<longrightarrow> field (fst (summarizeRoute pe w req)) ''detail'' = Some (errMessage e)))
   \<and> (checkJwtJose pe w req = (Inl r, calls)
      \<longrightarrow> summarizeRoute pe w req = (r, calls) \<and> status r = 401 \<and> providerCalls calls = [])
   \<and> (Body_parse (body req) = Inl issues
      \<longrightarrow> providerCalls (snd (summarizeRoute pe w req)) = [])"
proof (intro conjI impI)
  assume "express_json jsonLimit (skippedBody w) hr = Inl code"
  then show "app_post_summarize pe w hr = (ParserRejected code, [])"
    by (rule app_parser_rejected)
next
  assume h: "express_json jsonLimit (skippedBody w) hr = Inr req
        \<and> split 0x20 (orElse (headerAuthorization hr) []) = scheme # rest
        \<and> (toLowerCase scheme \<noteq> ascii ''bearer'' \<or> rest = [] \<or> (\<exists>more. rest = [] # more))"
  then have a: "authorization req = headerAuthorization hr"
    using express_json_authorization by blast
  with h have "bearerToken (authorization req) = None"
    using bearerToken_None [of "headerAuthorization hr" scheme rest] by simp
  then have "checkJwtJose pe w req = (Inl (unauthorized authNotConfigured), []) \<or>
             checkJwtJose pe w req = (Inl (unauthorized missingBearer), [])"
    by (rule checkJwtJose_no_token)
  then have "summarizeRoute pe w req = (unauthorized authNotConfigured, []) \<or>
             summarizeRoute pe w req = (unauthorized missingBearer, [])"
    using route_stop by blast
  moreover from h have "app_post_summarize pe w hr =
      (Answered (fst (summarizeRoute pe w req)), snd (summarizeRoute pe w req))"
    using app_parser_passed by blast
  ultimately show "\<exists>r. app_post_summarize pe w hr = (Answered r, []) \<and> status r = 401"
    by (auto simp: unauthorized_def)
next
  assume h: "env_AUTH0_DOMAIN pe = Some domain \<and> domain \<noteq> []
        \<and> env_AUTH0_AUDIENCE pe = Some aud \<and> aud \<noteq> []
        \<and> split 0x20 (orElse (authorization req) []) = sch # token # others
        \<and> toLowerCase sch = ascii ''bearer'' \<and> token \<noteq> []
        \<and> jwtVerify w token (ascii ''https://'' @ domain @ ascii ''/.well-known/jwks.json'')
              (ascii ''https://'' @ domain @ ascii ''/'') aud = Inl e"
  then have "bearerToken (authorization req) = Some token"
    using bearerToken_Some by blast
  with h have "checkJwtJose pe w req =
      (Inl (unauthorized (messageOrSelf e)), [CallJwtVerify token])"
    using checkJwtJose_refused by blast
  then have r: "summarizeRoute pe w req = (unauthorized (messageOrSelf e), [CallJwtVerify token])"
    by (rule route_stop)
  show "status (fst (summarizeRoute pe w req)) = 401"
    by (simp add: r unauthorized_def)
  show "snd (summarizeRoute pe w req) = [CallJwtVerify token]"
    by (simp add: r)
  show "field (fst (summarizeRoute pe w req)) ''detail'' = Some (errMessage e)"
    if "errMessage e \<noteq> []"
    using that by (simp add: r unauthorized_def field_def messageOrSelf_def)
next
  assume h: "checkJwtJose pe w req = (Inl r, calls)"
  then show "summarizeRoute pe w req = (r, calls)" by (rule route_stop)
  from h show "status r = 401"
    using checkJwtJose_Inl [OF h] by (auto simp: unauthorized_def)
  from h show "providerCalls calls = []"
    using checkJwtJose_Inl [OF h] by (simp add: providerCalls_def)
next
  assume h: "Body_parse (body req) = Inl issues"
  show "providerCalls (snd (summarizeRoute pe w req)) = []"
  proof (cases "checkJwtJose pe w req")
    case (Pair a calls0)
    have c0: "filter isProviderCall calls0 = []"
      using checkJwtJose_calls [of pe w req] Pair by simp
    show ?thesis
    proof (cases a)
      case (Inl r')
      with Pair c0 show ?thesis by (simp add: route_stop providerCalls_def)
    next
      case (Inr claims)
      with Pair c0 show ?thesis
        by (simp add: route_next handler_invalid [OF h] providerCalls_def)
    qed
  qed
qed

theorem C6_no_provider_call_without_auth_or_validation_witness:
  "app_post_summarize peBoth strictWorld
       (jsonRequest None 1048577 (Some (textBody (ascii ''notes''))))
     = (ParserRejected 413, [])
   \<and> (\<exists>r. app_post_summarize peBoth strictWorld
              (jsonRequest None 64 (Some (textBody (ascii ''notes''))))
            = (Answered r, []) \<and> status r = 401)
   \<and> status (fst (summarizeRoute peBoth strictWorld
         (requestWith (Some (ascii ''Bearer bad'')) (textBody (ascii ''notes''))))) = 401
   \<and> snd (summarizeRoute peBoth strictWorld
         (requestWith (Some (ascii ''Bearer bad'')) (textBody (ascii ''notes''))))
       = [CallJwtVerify (ascii ''bad'')]
   \<and> field (fst (summarizeRoute peBoth strictWorld
         (requestWith (Some (ascii ''Bearer bad'')) (textBody (ascii ''notes''))))) ''detail''
       = Some (ascii ''Invalid Compact JWS'')
   \<and> summarizeRoute peNoAuth strictWorld
         (requestWith (Some (ascii ''Bearer good'')) (textBody (ascii ''notes'')))
       = (unauthorized authNotConfigured, [])
   \<and> providerCalls (snd (summarizeRoute peBoth strictWorld
         (requestWith (Some (ascii ''Bearer good'')) (textBody [])))) = []"
proof -
  let ?w = strictWorld
  let ?bad = "requestWith (Some (ascii ''Bearer bad'')) (textBody (ascii ''notes''))"
  let ?good = "requestWith (Some (ascii ''Bearer good'')) (textBody (ascii ''notes''))"
  let ?empty = "requestWith (Some (ascii ''Bearer good'')) (textBody [])"
  have c1: "app_post_summarize peBoth ?w
              (jsonRequest None 1048577 (Some (textBody (ascii ''notes''))))
            = (ParserRejected 413, [])"
    using C6_no_provider_call_without_auth_or_validation
            [of "?w" "jsonRequest None 1048577 (Some (textBody (ascii ''notes'')))" 413 peBoth]
          express_json_oversized
    by simp
  have s0: "split 0x20 (orElse (headerAuthorization
              (jsonRequest None 64 (Some (textBody (ascii ''notes''))))) []) = [] # []"
    by (simp add: jsonRequest_def orElse_def)
  have nb: "toLowerCase [] \<noteq> ascii ''bearer''"
    by (simp add: toLowerCase_def ascii_def)
  have c2: "\<exists>r. app_post_summarize peBoth ?w
              (jsonRequest None 64 (Some (textBody (ascii ''notes''))))
            = (Answered r, []) \<and> status r = 401"
    using C6_no_provider_call_without_auth_or_validation
            [of "?w" "jsonRequest None 64 (Some (textBody (ascii ''notes'')))" _ peBoth
                "requestWith None (textBody (ascii ''notes''))" "[]" "[]"]
          express_json_example s0 nb
    by simp
  have k: "env_AUTH0_DOMAIN peBoth = Some (ascii ''dev.auth0.com'')"
          "ascii ''dev.auth0.com'' \<noteq> []"
          "env_AUTH0_AUDIENCE peBoth = Some (ascii ''api'')" "ascii ''api'' \<noteq> []"
    by (simp_all add: peBoth_def ascii_def)
  have s1: "split 0x20 (orElse (authorization ?bad) []) = ascii ''Bearer'' # ascii ''bad'' # []"
    by (simp add: requestWith_def orElse_def ascii_def)
  have lb: "toLowerCase (ascii ''Bearer'') = ascii ''bearer''" "ascii ''bad'' \<noteq> []"
    by (simp_all add: toLowerCase_def lowerChar_def ascii_def)
  have v: "jwtVerify ?w (ascii ''bad'')
             (ascii ''https://'' @ ascii ''dev.auth0.com'' @ ascii ''/.well-known/jwks.json'')
             (ascii ''https://'' @ ascii ''dev.auth0.com'' @ ascii ''/'') (ascii ''api'')
           = Inl invalidToken"
    by (simp add: strictWorld_def ascii_def)
  have em: "errMessage invalidToken = ascii ''Invalid Compact JWS''"
           "ascii ''Invalid Compact JWS'' \<noteq> []"
    by (simp_all add: invalidToken_def ascii_def)
  have c3: "status (fst (summarizeRoute peBoth ?w ?bad)) = 401
          \<and> snd (summarizeRoute peBoth ?w ?bad) = [CallJwtVerify (ascii ''bad'')]
          \<and> field (fst (summarizeRoute peBoth ?w ?bad)) ''detail''
              = Some (ascii ''Invalid Compact JWS'')"
    using C6_no_provider_call_without_auth_or_validation
            [of "?w" _ _ peBoth "?bad" _ _ "ascii ''dev.auth0.com''" "ascii ''api''"
                "ascii ''Bearer''" "ascii ''bad''" "[]" invalidToken]
          k s1 lb v em
    by simp
  have u: "checkJwtJose peNoAuth ?w ?good = (Inl (unauthorized authNotConfigured), [])"
    by (rule checkJwtJose_unconfigured) (simp add: peNoAuth_def truthy_def)
  have c4: "summarizeRoute peNoAuth ?w ?good = (unauthorized authNotConfigured, [])"
    using C6_no_provider_call_without_auth_or_validation
            [of "?w" _ _ peNoAuth "?good" _ _ _ _ _ _ _ _ "unauthorized authNotConfigured" "[]"]
          u
    by simp
  have b: "Body_parse (body ?empty) = Inl [TooSmall [ascii ''text''] 1]"
    by (simp add: requestWith_def textBody_def)
  have c5: "providerCalls (snd (summarizeRoute peBoth ?w ?empty)) = []"
    using C6_no_provider_call_without_auth_or_validation
            [of "?w" _ _ peBoth "?empty" _ _ _ _ _ _ _ _ _ _ "[TooSmall [ascii ''text''] 1]"]
          b
    by simp
  show ?thesis
    using c1 c2 c3 c4 c5 by simp
qed

section \<open>Gemini misconfiguration\<close>

text \<open>
  C7. The code answers a Gemini model error with the demo response, status 200, not with
  the 400 response of the catch block: the error thrown by the Gemini call is caught by the
  inner \<open>catch\<close>, which lets control fall through, so it never reaches the outer
  \<open>catch\<close> that maps such messages to \<open>geminiUnavailable\<close>. Below, Gemini is the sole
  configured adapter and its call throws a 404 model error.
\<close>

theorem C7_gemini_misconfiguration_answered_demo:
  "generateContent (exampleWorld (Inl modelNotFound) (Inr None)) (ascii ''gk'')
       (GEMINI_MODEL peGeminiOnly) (promptPrefix @ ascii ''notes'') = Inl modelNotFound
   \<and> catchHandler peGeminiOnly modelNotFound = geminiUnavailable peGeminiOnly
   \<and> summarizeRoute peGeminiOnly (exampleWorld (Inl modelNotFound) (Inr None))
         (requestWith bearerAbc (textBody (ascii ''notes'')))
       = (demoResponse peGeminiOnly (ascii ''notes''),
          [CallJwtVerify (ascii ''abc''),
           CallGemini (ascii ''gemini-2.0-flash'') (promptPrefix @ ascii ''notes'')])
   \<and> status (demoResponse peGeminiOnly (ascii ''notes'')) = 200"
proof -
  let ?w = "exampleWorld (Inl modelNotFound) (Inr None)"
  let ?req = "requestWith bearerAbc (textBody (ascii ''notes''))"
  have m: "GEMINI_MODEL peGeminiOnly = ascii ''gemini-2.0-flash''"
    by (simp add: GEMINI_MODEL_default peGeminiOnly_def peBoth_def)
  have keys: "env_GEMINI_API_KEY peGeminiOnly = Some (ascii ''gk'')" "ascii ''gk'' \<noteq> []"
             "env_OPENAI_API_KEY peGeminiOnly = None"
    by (simp_all add: peGeminiOnly_def peBoth_def ascii_def)
  have g: "tryGemini peGeminiOnly ?w (ascii ''notes'') =
             (None, [CallGemini (ascii ''gemini-2.0-flash'') (promptPrefix @ ascii ''notes'')])"
    using keys by (simp add: tryGemini_def m exampleWorld_def)
  have oa: "tryOpenAI peGeminiOnly ?w (ascii ''notes'') = (None, [])"
    using keys by (simp add: tryOpenAI_def)
  have c: "catchHandler peGeminiOnly modelNotFound = geminiUnavailable peGeminiOnly"
    using modelNotFound_matched modelNotFound_message
    by (simp add: catchHandler_def messageOrSelf_def)
  have "summarizeRoute peGeminiOnly ?w ?req =
          (demoResponse peGeminiOnly (ascii ''notes''),
           [CallJwtVerify (ascii ''abc''),
            CallGemini (ascii ''gemini-2.0-flash'') (promptPrefix @ ascii ''notes'')])"
    by (simp add: route_next [OF auth_peGeminiOnly] handler_valid [OF body_example] g oa)
  then show ?thesis
    using c by (simp add: demoResponse_def exampleWorld_def)
qed

section \<open>Missing bearer token\<close>

text \<open>
  C8, as stated, fails: a header with another scheme (\<open>Basic abc\<close>) and a header with the
  bearer scheme and no token (\<open>Bearer\<close>) get the same response, with the same detail.
\<close>

theorem C8_same_detail_counterexample:
  "bearerToken (Some (ascii ''Basic abc'')) = None
   \<and> bearerToken (Some (ascii ''Bearer'')) = None
   \<and> checkJwtJose peBoth (exampleWorld (Inr (ascii ''s'')) (Inr None))
        (requestWith (Some (ascii ''Basic abc'')) (textBody (ascii ''notes'')))
      = (Inl (unauthorized missingBearer), [])
   \<and> checkJwtJose peBoth (exampleWorld (Inr (ascii ''s'')) (Inr None))
        (requestWith (Some (ascii ''Bearer'')) (textBody (ascii ''notes'')))
      = (Inl (unauthorized missingBearer), [])"
proof -
  have 1: "bearerToken (Some (ascii ''Basic abc'')) = None"
    by (simp add: bearerToken_def orElse_def ascii_def toLowerCase_def lowerChar_def Let_def)
  have 2: "bearerToken (Some (ascii ''Bearer'')) = None"
    by (simp add: bearerToken_def orElse_def ascii_def toLowerCase_def lowerChar_def Let_def)
  have t: "truthy (env_AUTH0_DOMAIN peBoth)" "truthy (env_AUTH0_AUDIENCE peBoth)"
    by (simp_all add: peBoth_def truthy_def ascii_def)
  show ?thesis
    using 1 2 t by (simp add: checkJwtJose_configured_no_token requestWith_def)
qed

text \<open>
  C8, amended. With authentication configured, when the scheme of the \<open>Authorization\<close>
  header is not \<open>bearer\<close> in any letter case, or no token follows it, or the token is
  empty, the middleware answers at once, without calling \<open>jwtVerify\<close>, with status 401,
  error \<open>Unauthorized\<close> and the detail \<open>Missing Bearer token\<close>, the same in each case.
\<close>

theorem C8_missing_bearer_token:
  assumes "truthy (env_AUTH0_DOMAIN pe)" and "truthy (env_AUTH0_AUDIENCE pe)"
      and "split 0x20 (orElse (authorization req) []) = scheme # rest"
      and "toLowerCase scheme \<noteq> ascii ''bearer'' \<or> rest = [] \<or> (\<exists>more. rest = [] # more)"
  shows "checkJwtJose pe w req = (Inl (unauthorized missingBearer), [])
       \<and> status (unauthorized missingBearer) = 401
       \<and> field (unauthorized missingBearer) ''error'' = Some (ascii ''Unauthorized'')
       \<and> field (unauthorized missingBearer) ''detail'' = Some (ascii ''Missing Bearer token'')"
proof -
  have "bearerToken (authorization req) = None"
    using assms(3,4) by (rule bearerToken_None)
  then have "checkJwtJose pe w req = (Inl (unauthorized missingBearer), [])"
    using assms(1,2) by (simp add: checkJwtJose_configured_no_token)
  then show ?thesis
    by (simp add: unauthorized_def field_def missingBearer_def)
qed

theorem C8_missing_bearer_token_witness:
  "checkJwtJose peBoth (exampleWorld (Inr (ascii ''s'')) (Inr None))
        (requestWith (Some (ascii ''Basic abc'')) (textBody (ascii ''notes'')))
      = (Inl (unauthorized missingBearer), [])
   \<and> checkJwtJose peBoth (exampleWorld (Inr (ascii ''s'')) (Inr None))
        (requestWith (Some (ascii ''bearer'')) (textBody (ascii ''notes'')))
      = (Inl (unauthorized missingBearer), [])"
proof -
  let ?w = "exampleWorld (Inr (ascii ''s'')) (Inr None)"
  have t: "truthy (env_AUTH0_DOMAIN peBoth)" "truthy (env_AUTH0_AUDIENCE peBoth)"
    by (simp_all add: peBoth_def truthy_def ascii_def)
  have 1: "split 0x20 (orElse (authorization
              (requestWith (Some (ascii ''Basic abc'')) (textBody (ascii ''notes'')))) [])
            = ascii ''Basic'' # [ascii ''abc'']"
    by (simp add: requestWith_def orElse_def ascii_def)
  have nb: "toLowerCase (ascii ''Basic'') \<noteq> ascii ''bearer''"
    by (simp add: toLowerCase_def lowerChar_def ascii_def)
  have 2: "split 0x20 (orElse (authorization
              (requestWith (Some (ascii ''bearer'')) (textBody (ascii ''notes'')))) [])
            = ascii ''bearer'' # []"
    by (simp add: requestWith_def orElse_def ascii_def)
  show ?thesis
    using C8_missing_bearer_token [OF t 1, of "?w"] nb
          C8_missing_bearer_token [OF t 2, of "?w"]
    by simp
qed

section \<open>Authentication not configured\<close>

text \<open>
  C9, as stated, fails for a request the body parser rejects: with authentication not
  configured, an oversized request is answered 413 and a request whose payload is the
  number \<open>5\<close> is answered 400, by the parser, not 401.
\<close>

theorem C9_parser_answers_first_counterexample:
  "\<not> truthy (env_AUTH0_DOMAIN peNoAuth)
   \<and> app_post_summarize peNoAuth strictWorld
         (jsonRequest (Some (ascii ''Bearer good'')) 1048577 (Some (textBody (ascii ''notes''))))
       = (ParserRejected 413, [])
   \<and> app_post_summarize peNoAuth strictWorld
         (jsonRequest (Some (ascii ''Bearer good'')) 1 (Some (JNumber 5)))
       = (ParserRejected 400, [])"
proof -
  have 1: "\<not> truthy (env_AUTH0_DOMAIN peNoAuth)"
    by (simp add: peNoAuth_def truthy_def)
  have 2: "express_json jsonLimit sk (jsonRequest h 1 (Some (JNumber 5))) = Inl 400" for sk h
    by (simp add: express_json_def jsonRequest_def jsonLimit_def)
  show ?thesis
    using 1 app_parser_rejected [OF express_json_oversized] app_parser_rejected [OF 2]
    by simp
qed

text \<open>
  C9, amended. When \<open>AUTH0_DOMAIN\<close> or \<open>AUTH0_AUDIENCE\<close> is unset or empty, the
  middleware answers every request that reaches the route with status 401, error
  \<open>Unauthorized\<close> and the detail \<open>Auth not configured on server (missing AUTH0_* envs).\<close>,
  and never calls \<open>next()\<close>. So the application answers every request the body parser
  passes on with this 401, answers every request the parser rejects with the parser's
  status, and in either case makes no call at all.
\<close>

theorem C9_auth_not_configured_fails_closed:
  assumes "\<not> truthy (env_AUTH0_DOMAIN pe) \<or> \<not> truthy (env_AUTH0_AUDIENCE pe)"
  shows "checkJwtJose pe w req = (Inl (unauthorized authNotConfigured), [])
       \<and> summarizeRoute pe w req = (unauthorized authNotConfigured, [])
       \<and> status (unauthorized authNotConfigured) = 401
       \<and> field (unauthorized authNotConfigured) ''error'' = Some (ascii ''Unauthorized'')
       \<and> field (unauthorized authNotConfigured) ''detail''
           = Some (ascii ''Auth not configured on server (missing AUTH0_* envs).'')
       \<and> (express_json jsonLimit (skippedBody w) hr = Inr passed
          \<longrightarrow> app_post_summarize pe w hr = (Answered (unauthorized authNotConfigured), []))
       \<and> (express_json jsonLimit (skippedBody w) hr = Inl code
          \<longrightarrow> app_post_summarize pe w hr = (ParserRejected code, []))
       \<and> snd (app_post_summarize pe w hr) = []"
proof -
  have a: "checkJwtJose pe w r = (Inl (unauthorized authNotConfigured), [])" for r
    using assms by (rule checkJwtJose_unconfigured)
  then have r: "summarizeRoute pe w r = (unauthorized authNotConfigured, [])" for r
    by (rule route_stop)
  have p: "app_post_summarize pe w hr = (Answered (unauthorized authNotConfigured), [])"
    if "express_json jsonLimit (skippedBody w) hr = Inr passed"
    using that by (simp add: app_parser_passed r)
  have q: "app_post_summarize pe w hr = (ParserRejected code, [])"
    if "express_json jsonLimit (skippedBody w) hr = Inl code"
    using that by (rule app_parser_rejected)
  have n: "snd (app_post_summarize pe w hr) = []"
    by (cases "express_json jsonLimit (skippedBody w) hr")
       (simp_all add: app_parser_rejected app_parser_passed r)
  show ?thesis
    using a r p q n by (simp add: unauthorized_def field_def authNotConfigured_def)
qed

theorem C9_auth_not_configured_fails_closed_witness:
  "summarizeRoute peNoAuth strictWorld
       (requestWith (Some (ascii ''Bearer good'')) (textBody (ascii ''notes'')))
     = (unauthorized authNotConfigured, [])
   \<and> status (unauthorized authNotConfigured) = 401
   \<and> app_post_summarize peNoAuth strictWorld
       (jsonRequest (Some (ascii ''Bearer good'')) 64 (Some (textBody (ascii ''notes''))))
     = (Answered (unauthorized authNotConfigured), [])
   \<and> app_post_summarize peNoAuth strictWorld
       ((jsonRequest (Some (ascii ''Bearer good'')) 64 None)\<lparr>contentTypeJson := False\<rparr>)
     = (Answered (unauthorized authNotConfigured), [])"
proof -
  let ?plain = "(jsonRequest (Some (ascii ''Bearer good'')) 64 None)\<lparr>contentTypeJson := False\<rparr>"
  have h: "\<not> truthy (env_AUTH0_DOMAIN peNoAuth) \<or> \<not> truthy (env_AUTH0_AUDIENCE peNoAuth)"
    by (simp add: peNoAuth_def truthy_def)
  have s: "express_json jsonLimit (skippedBody strictWorld) ?plain =
             Inr (requestWith (Some (ascii ''Bearer good'')) JUndefined)"
    by (simp add: express_json_def jsonRequest_def strictWorld_def requestWith_def)
  show ?thesis
    using C9_auth_not_configured_fails_closed [OF h, of strictWorld
            "requestWith (Some (ascii ''Bearer good'')) (textBody (ascii ''notes''))"
            "jsonRequest (Some (ascii ''Bearer good'')) 64 (Some (textBody (ascii ''notes'')))"
            "requestWith (Some (ascii ''Bearer good'')) (textBody (ascii ''notes''))"]
          C9_auth_not_configured_fails_closed [OF h, of strictWorld _ "?plain"
            "requestWith (Some (ascii ''Bearer good'')) JUndefined"]
          express_json_example s
    by simp
qed

section \<open>The body size limit\<close>

text \<open>
  C10. A request with a JSON body whose payload is larger than the parser's limit of
  1048576 bytes is rejected by the body parser, with status 413 (or 415 when its charset
  or content encoding is not supported, which the parser tests first): the middleware and
  the handler do not run, no call is made, and the reply is not the handler's invalid-body
  response.
\<close>

theorem C10_oversized_body_rejected_by_parser:
  assumes "hasBody hr" and "contentTypeJson hr" and "bodyBytes hr > jsonLimit"
  shows "app_post_summarize pe w hr =
           (ParserRejected (if encodingSupported hr then 413 else 415), [])
       \<and> fst (app_post_summarize pe w hr) \<noteq> Answered invalidBody
       \<and> jsonLimit = 1048576"
  using assms by (simp add: app_post_summarize_def express_json_def jsonLimit_def)

theorem C10_oversized_body_rejected_by_parser_witness:
  "bodyBytes (jsonRequest bearerAbc 1048577 (Some (textBody (ascii ''notes'')))) > jsonLimit
   \<and> app_post_summarize peBoth (exampleWorld (Inr (ascii ''s'')) (Inr None))
       (jsonRequest bearerAbc 1048577 (Some (textBody (ascii ''notes''))))
     = (ParserRejected 413, [])
   \<and> app_post_summarize peBoth (exampleWorld (Inr (ascii ''s'')) (Inr None))
       ((jsonRequest bearerAbc 1048577 (Some (textBody (ascii ''notes''))))
          \<lparr>encodingSupported := False\<rparr>)
     = (ParserRejected 415, [])"
proof -
  let ?hr = "jsonRequest bearerAbc 1048577 (Some (textBody (ascii ''notes'')))"
  have h: "hasBody ?hr" "contentTypeJson ?hr" "bodyBytes ?hr > jsonLimit"
          "encodingSupported ?hr"
    by (simp_all add: jsonRequest_def jsonLimit_def)
  have h': "hasBody (?hr\<lparr>encodingSupported := False\<rparr>)"
           "contentTypeJson (?hr\<lparr>encodingSupported := False\<rparr>)"
           "bodyBytes (?hr\<lparr>encodingSupported := False\<rparr>) > jsonLimit"
    by (simp_all add: jsonRequest_def jsonLimit_def)
  show ?thesis
    using h C10_oversized_body_rejected_by_parser [OF h(1,2,3), of peBoth
            "exampleWorld (Inr (ascii ''s'')) (Inr None)"]
          C10_oversized_body_rejected_by_parser [OF h', of peBoth
            "exampleWorld (Inr (ascii ''s'')) (Inr None)"]
    by simp
qed

end
